theory Spec2Isabelle
  imports Main "HOL-Library.Sublist"
begin

section \<open>Go values and reflected types\<close>

text \<open>
  The library works on values through package \<open>reflect\<close>. A value is a pair of its
  dynamic type and its contents. The contents are kept only as far as the library can
  look at them: a string, a function (the identity of a closure made by
  \<open>messageHandler\<close>), a pointer (an address of the heap below), a slice (the contents
  of its elements), nil, and a few scalars that serve as message parameters;
  \<open>ROpaque\<close> is the content of any other value.
\<close>

type_synonym addr = nat

datatype raw =
  RString string | RInt int | RBool bool | RFunc nat | RPtr addr | RSlice "raw list" | RNil | ROpaque

text \<open>The kinds of \<open>reflect.Kind\<close> (\<open>Int_k\<close> is the kind \<open>Int\<close>).\<close>

datatype Kind =
    Invalid | Bool | Int_k | Int8 | Int16 | Int32 | Int64
  | Uint | Uint8 | Uint16 | Uint32 | Uint64 | Uintptr
  | Float32 | Float64 | Complex64 | Complex128
  | Array | Chan | Func | Interface | Map | Pointer | Slice | String | Struct | UnsafePointer

text \<open>
  A \<open>reflect.Type\<close>, with what the library asks of it: name, package path, kind,
  parameter types, whether the last parameter is variadic, and result types (of a function
  type), element type (of a pointer, slice, array, map or channel
  type), fields (of a struct type), number of methods (of an interface type), and the two
  optional methods \<open>G11nParam\<close> and \<open>G11nResult\<close> of its method set, as functions of
  the receiver's contents (the methods are taken to compute a string and do nothing
  else; for an interface type the entry says that the method is in its method set, and
  its function is never applied: the method of an interface value is that of its dynamic
  type). Go's types may refer to themselves (a struct that embeds a
  pointer to its own type), hence a codatatype; a \<open>StructField\<close> is
  \<open>reflect.StructField\<close>, its tag already split into key and value pairs.
\<close>

codatatype gtype =
  GType (type_Name: string) (type_PkgPath: string) (type_Kind: Kind)
    (type_In: "gtype list") (type_IsVariadic: bool) (type_Out: "gtype list") (type_Elem: "gtype option") (type_Fields: "StructField list")
    (type_NumMethod: nat)
    (G11nParam: "(raw \<Rightarrow> string) option")
    (G11nResult: "(raw \<Rightarrow> string \<Rightarrow> string) option")
and StructField =
  StructField (Name: string) (PkgPath: string) (Type: gtype) (Tag: "(string \<times> string) list")
    (Anonymous: bool)

type_synonym Value = "gtype \<times> raw"

text \<open>The predeclared type \<open>string\<close>.\<close>

definition string_t :: gtype where
  "string_t = GType ''string'' [] String [] False [] None [] 0 None None"

subsection \<open>Panics\<close>

text \<open>
  A panic carries its message. \<open>WrongResultsCount n\<close>, \<open>UnknownFormat f\<close> and
  \<open>UnknownLocale t\<close> are the three patterns \<open>wrongResultsCountMessage\<close>,
  \<open>unknownFormatMessage\<close> and \<open>unknownLocaleTag\<close> of the source, formatted with
  their one operand. \<open>ReflectPanic\<close> is a panic raised inside package \<open>reflect\<close>,
  \<open>RuntimeError\<close> one of the Go runtime, \<open>LoaderPanic\<close> one raised by a locale
  loader.
  A panicking operation returns the world as it was when the panic was raised, which is
  what a caller that recovers can observe.
\<close>

type_synonym tag = string

datatype panic =
    WrongResultsCount nat
  | UnknownFormat string
  | UnknownLocale tag
  | ReflectPanic string
  | RuntimeError string
  | LoaderPanic string

datatype 'a outcome = Ok 'a | Panic panic

definition defaultMessageTag :: string where
  "defaultMessageTag = ''default''"

subsection \<open>The methods of \<open>reflect.Type\<close> and \<open>reflect.StructTag\<close>\<close>

definition NumOut :: "gtype \<Rightarrow> nat outcome" where
  "NumOut t =
     (if type_Kind t = Func then Ok (length (type_Out t))
      else Panic (ReflectPanic ''reflect: NumOut of non-func type''))"

definition Out :: "gtype \<Rightarrow> nat \<Rightarrow> gtype outcome" where
  "Out t i =
     (if type_Kind t \<noteq> Func then Panic (ReflectPanic ''reflect: Out of non-func type'')
      else if i < length (type_Out t) then Ok (type_Out t ! i)
      else Panic (ReflectPanic ''reflect: Func index out of bounds''))"

definition Elem :: "gtype \<Rightarrow> gtype outcome" where
  "Elem t =
     (if type_Kind t \<in> {Array, Chan, Map, Pointer, Slice}
      then (case type_Elem t of
              Some e \<Rightarrow> Ok e
            | None \<Rightarrow> Panic (ReflectPanic ''reflect: Elem of invalid type''))
      else Panic (ReflectPanic ''reflect: Elem of invalid type''))"

definition NumField :: "gtype \<Rightarrow> nat outcome" where
  "NumField t =
     (if type_Kind t = Struct then Ok (length (type_Fields t))
      else Panic (ReflectPanic ''reflect: NumField of non-struct type''))"

text \<open>\<open>FieldByName\<close> on a struct type: the first field of that name at the top level.\<close>

definition FieldByName :: "gtype \<Rightarrow> string \<Rightarrow> StructField option" where
  "FieldByName t name = find (\<lambda>f. Name f = name) (type_Fields t)"

definition Tag_Get :: "(string \<times> string) list \<Rightarrow> string \<Rightarrow> string" where
  "Tag_Get t key = (case map_of t key of Some v \<Rightarrow> v | None \<Rightarrow> '''')"

text \<open>
  The zero value of a type, by kind: the empty string, false, the integer 0, nil for the
  kinds that have it; the zero of the other kinds is a content the library does not look
  at.
\<close>

fun zero_raw :: "Kind \<Rightarrow> raw" where
  "zero_raw String = RString ''''"
| "zero_raw Bool = RBool False"
| "zero_raw Int_k = RInt 0"
| "zero_raw Int8 = RInt 0"
| "zero_raw Int16 = RInt 0"
| "zero_raw Int32 = RInt 0"
| "zero_raw Int64 = RInt 0"
| "zero_raw Uint = RInt 0"
| "zero_raw Uint8 = RInt 0"
| "zero_raw Uint16 = RInt 0"
| "zero_raw Uint32 = RInt 0"
| "zero_raw Uint64 = RInt 0"
| "zero_raw Uintptr = RInt 0"
| "zero_raw Float32 = ROpaque"
| "zero_raw Float64 = ROpaque"
| "zero_raw Complex64 = ROpaque"
| "zero_raw Complex128 = ROpaque"
| "zero_raw Struct = ROpaque"
| "zero_raw Array = ROpaque"
| "zero_raw k = RNil"

section \<open>The factory and the world around it\<close>

record localeInfo =
  format :: string
  path :: string

text \<open>
  A field of a struct variable as \<open>reflect.Value\<close> has it: the address of the variable
  and the field that \<open>FieldByName\<close> found (\<open>None\<close> is the zero \<open>Value\<close> of a
  name that was not found).
\<close>

type_synonym fieldref = "addr \<times> StructField option"

text \<open>
  The closure appended to \<open>stringInitializers\<close>, by the variables it captures
  (\<open>mf\<close> is the one factory of the world).
\<close>

record stringInitializer =
  si_messagePattern :: string
  si_messageKey :: string
  si_instanceField :: fieldref

text \<open>
  The closure returned by \<open>messageHandler\<close>, by the variables it captures. The closure
  assigns to its captured \<open>messagePattern\<close>, so the closures live in a store of the
  world and a function value is the index of its closure.
\<close>

record handler =
  h_messagePattern :: string
  h_messageKey :: string
  h_resultType :: gtype

record MessageFactory =
  locales :: "tag \<rightharpoonup> localeInfo"
  dictionary :: "string \<rightharpoonup> string"
  stringInitializers :: "stringInitializer list"

text \<open>
  A variable of the heap: its type and, for a struct, the contents of its fields by name.
  Addresses are positions in the heap; allocation appends.
\<close>

record cell =
  ctype :: gtype
  cfields :: "string \<Rightarrow> raw"

record world =
  mf :: MessageFactory
  heap :: "cell list"
  closures :: "handler list"

text \<open>
  What the library takes from outside: \<open>fmt.Sprintf\<close>, and the loader registry of the
  \<open>locale\<close> package (\<open>GetLoader\<close> gives the loader of a format, if any; its
  \<open>Load\<close> maps a path to a dictionary, or panics).
\<close>

record externals =
  Sprintf :: "string \<Rightarrow> Value list \<Rightarrow> string"
  GetLoader :: "string \<Rightarrow> (string \<Rightarrow> panic + (string \<rightharpoonup> string)) option"

subsection \<open>Reading and writing a field through reflection\<close>

definition store :: "addr \<Rightarrow> string \<Rightarrow> raw \<Rightarrow> world \<Rightarrow> world" where
  "store a name v w =
     w\<lparr>heap := (heap w)[a := (heap w ! a)\<lparr>cfields := (cfields (heap w ! a))(name := v)\<rparr>]\<rparr>"

definition field_value :: "world \<Rightarrow> addr \<Rightarrow> string \<Rightarrow> raw" where
  "field_value w a name = cfields (heap w ! a) name"

text \<open>
  \<open>Value.Interface\<close> on a field: panics on the zero \<open>Value\<close> and on a field that is
  not exported (a non-empty \<open>PkgPath\<close>).
\<close>

definition Value_Interface :: "fieldref \<Rightarrow> world \<Rightarrow> Value outcome" where
  "Value_Interface r w =
     (case snd r of
        None \<Rightarrow> Panic (ReflectPanic ''reflect: call of reflect.Value.Interface on zero Value'')
      | Some f \<Rightarrow>
          if fst r \<ge> length (heap w)
          then Panic (ReflectPanic ''reflect: call of reflect.Value.Interface on zero Value'')
          else if PkgPath f \<noteq> ''''
          then Panic (ReflectPanic ''reflect.Value.Interface: cannot return value obtained from unexported field or method'')
          else Ok (Type f, field_value w (fst r) (Name f)))"

text \<open>\<open>Value.SetString\<close> on a field: the field must be settable and of kind \<open>String\<close>.\<close>

definition Value_SetString :: "fieldref \<Rightarrow> string \<Rightarrow> world \<Rightarrow> unit outcome \<times> world" where
  "Value_SetString r s w =
     (case snd r of
        None \<Rightarrow> (Panic (ReflectPanic ''reflect: call of reflect.Value.SetString on zero Value''), w)
      | Some f \<Rightarrow>
          if fst r \<ge> length (heap w)
          then (Panic (ReflectPanic ''reflect: call of reflect.Value.SetString on zero Value''), w)
          else if PkgPath f \<noteq> ''''
          then (Panic (ReflectPanic ''reflect: reflect.Value.SetString using value obtained using unexported field''), w)
          else if type_Kind (Type f) \<noteq> String
          then (Panic (ReflectPanic ''reflect: call of reflect.Value.SetString on non-string Value''), w)
          else (Ok (), store (fst r) (Name f) (RString s) w))"

text \<open>
  \<open>Value.Set\<close> on a field, for the two values the library sets: the function
  \<open>reflect.MakeFunc\<close> makes, of the type of the field being initialized (\<open>k\<close> is
  \<open>Func\<close>), and the pointer \<open>reflect.New\<close> makes to a variable of the element
  type of the field (\<open>k\<close> is \<open>Pointer\<close>). The field must be settable and the
  value assignable to it, which it is when the field is of the kind \<open>k\<close>.
\<close>

definition Value_Set :: "fieldref \<Rightarrow> Kind \<Rightarrow> raw \<Rightarrow> world \<Rightarrow> unit outcome \<times> world" where
  "Value_Set r k v w =
     (case snd r of
        None \<Rightarrow> (Panic (ReflectPanic ''reflect: call of reflect.Value.Set on zero Value''), w)
      | Some f \<Rightarrow>
          if fst r \<ge> length (heap w)
          then (Panic (ReflectPanic ''reflect: call of reflect.Value.Set on zero Value''), w)
          else if PkgPath f \<noteq> ''''
          then (Panic (ReflectPanic ''reflect: reflect.Value.Set using value obtained using unexported field''), w)
          else if type_Kind (Type f) \<noteq> k
          then (Panic (ReflectPanic ''reflect.Set: value is not assignable to type''), w)
          else (Ok (), store (fst r) (Name f) v w))"

text \<open>\<open>reflect.New\<close>: a new variable of the type, holding its zero value.\<close>

definition zero_cell :: "gtype \<Rightarrow> cell" where
  "zero_cell t =
     \<lparr>ctype = t,
      cfields = (\<lambda>name. case FieldByName t name of
                          Some f \<Rightarrow> zero_raw (type_Kind (Type f))
                        | None \<Rightarrow> RNil)\<rparr>"

section \<open>The source, function by function\<close>

text \<open>
  \<open>formatParam\<close>: the value itself, or the string its \<open>G11nParam\<close> gives when its
  dynamic type has that method.
\<close>

definition formatParam :: "Value \<Rightarrow> Value" where
  "formatParam v =
     (case G11nParam (fst v) of
        Some paramFormatter \<Rightarrow> (string_t, RString (paramFormatter (snd v)))
      | None \<Rightarrow> v)"

definition New :: MessageFactory where
  "New = \<lparr>locales = Map.empty, dictionary = Map.empty, stringInitializers = []\<rparr>"

definition SetLocale :: "tag \<Rightarrow> string \<Rightarrow> string \<Rightarrow> world \<Rightarrow> world" where
  "SetLocale t fmt pth w =
     w\<lparr>mf := (mf w)\<lparr>locales := (locales (mf w))(t \<mapsto> \<lparr>format = fmt, path = pth\<rparr>)\<rparr>\<rparr>"

text \<open>
  One closure of \<open>stringInitializers\<close>, run: the dictionary's entry for the key, or the
  captured default, set into the field.
\<close>

definition run_initializer :: "stringInitializer \<Rightarrow> world \<Rightarrow> unit outcome \<times> world" where
  "run_initializer si w =
     (let message = (case dictionary (mf w) (si_messageKey si) of
                       Some messagePattern \<Rightarrow> messagePattern
                     | None \<Rightarrow> si_messagePattern si)
      in Value_SetString (si_instanceField si) message w)"

fun run_initializers :: "stringInitializer list \<Rightarrow> world \<Rightarrow> unit outcome \<times> world" where
  "run_initializers [] w = (Ok (), w)"
| "run_initializers (si # rest) w =
     (case run_initializer si w of
        (Panic e, w') \<Rightarrow> (Panic e, w')
      | (Ok u, w') \<Rightarrow> run_initializers rest w')"

definition LoadLocale :: "externals \<Rightarrow> tag \<Rightarrow> world \<Rightarrow> unit outcome \<times> world" where
  "LoadLocale ext t w =
     (case locales (mf w) t of
        None \<Rightarrow> (Panic (UnknownLocale t), w)
      | Some locale \<Rightarrow>
          (case GetLoader ext (format locale) of
             None \<Rightarrow> (Panic (UnknownFormat (format locale)), w)
           | Some loader \<Rightarrow>
               (case loader (path locale) of
                  Inl e \<Rightarrow> (Panic e, w)
                | Inr d \<Rightarrow>
                    run_initializers (stringInitializers (mf w))
                      (w\<lparr>mf := (mf w)\<lparr>dictionary := d\<rparr>\<rparr>))))"

text \<open>
  The type assertion \<open>v.Interface().(resultFormatter)\<close>: the method \<open>G11nResult\<close> of
  the value's type, bound to the value. The zero value of an interface type is nil and
  asserts to nothing.
\<close>

definition resultFormatter_of :: "Value \<Rightarrow> (string \<Rightarrow> string) option" where
  "resultFormatter_of v =
     (if type_Kind (fst v) = Interface then None
      else map_option (\<lambda>m. m (snd v)) (G11nResult (fst v)))"

text \<open>
  The runes of a string, as the conversion \<open>[]rune(s)\<close> decodes them from UTF-8
  (\<open>utf8.DecodeRuneInString\<close>, on the bytes of the string): a byte below \<open>0x80\<close> is
  its own rune; a leading byte announces a sequence of two, three or four bytes, whose
  second byte lies in a range that depends on the leading byte and whose other bytes lie
  between \<open>0x80\<close> and \<open>0xBF\<close>; a byte that begins no such sequence gives
  \<open>RuneError\<close> and is passed over alone.
\<close>

definition RuneError :: nat where
  "RuneError = 0xFFFD"

definition sequence_size :: "nat \<Rightarrow> nat" where
  "sequence_size b0 =
     (if b0 < 0x80 then 1
      else if 0xC2 \<le> b0 \<and> b0 \<le> 0xDF then 2
      else if 0xE0 \<le> b0 \<and> b0 \<le> 0xEF then 3
      else if 0xF0 \<le> b0 \<and> b0 \<le> 0xF4 then 4
      else 0)"

definition accept_lo :: "nat \<Rightarrow> nat" where
  "accept_lo b0 = (if b0 = 0xE0 then 0xA0 else if b0 = 0xF0 then 0x90 else 0x80)"

definition accept_hi :: "nat \<Rightarrow> nat" where
  "accept_hi b0 = (if b0 = 0xED then 0x9F else if b0 = 0xF4 then 0x8F else 0xBF)"

definition continuation :: "nat \<Rightarrow> bool" where
  "continuation b \<longleftrightarrow> 0x80 \<le> b \<and> b \<le> 0xBF"

fun DecodeRune :: "nat list \<Rightarrow> nat \<times> nat" where
  "DecodeRune [] = (RuneError, 0)"
| "DecodeRune (s0 # rest) =
     (let sz = sequence_size s0
      in if sz = 1 then (s0, 1)
         else if sz = 0 then (RuneError, 1)
         else if length (s0 # rest) < sz then (RuneError, 1)
         else
           let s1 = rest ! 0
           in if s1 < accept_lo s0 \<or> accept_hi s0 < s1 then (RuneError, 1)
              else if sz \<le> 2 then (s0 mod 0x20 * 0x40 + s1 mod 0x40, 2)
              else
                let s2 = rest ! 1
                in if \<not> continuation s2 then (RuneError, 1)
                   else if sz \<le> 3
                   then (s0 mod 0x10 * 0x1000 + s1 mod 0x40 * 0x40 + s2 mod 0x40, 3)
                   else
                     let s3 = rest ! 2
                     in if \<not> continuation s3 then (RuneError, 1)
                        else (s0 mod 0x08 * 0x40000 + s1 mod 0x40 * 0x1000 +
                              s2 mod 0x40 * 0x40 + s3 mod 0x40, 4))"

fun runes :: "nat list \<Rightarrow> nat list" where
  "runes [] = []"
| "runes (b # bs) = (case DecodeRune (b # bs) of (r, n) \<Rightarrow> r # runes (drop (n - 1) bs))"

definition bytes_raw :: "string \<Rightarrow> raw" where
  "bytes_raw s = RSlice (map (\<lambda>c. RInt (of_char c)) s)"

definition runes_raw :: "string \<Rightarrow> raw" where
  "runes_raw s = RSlice (map (\<lambda>r. RInt (int r)) (runes (map of_char s)))"

text \<open>
  \<open>reflect.ValueOf(s).Convert(t)\<close> for a string \<open>s\<close>: to a slice of bytes or of
  runes (a slice type whose element type is of kind \<open>Uint8\<close> or \<open>Int32\<close> and has
  no package path), to a type whose underlying type is \<open>string\<close> (a type of kind
  \<open>String\<close>), and to an interface type that \<open>string\<close> implements, which is one
  without methods; any other conversion panics. A value of type \<open>string\<close> is
  assignable (\<open>Value.Set\<close>) to \<open>string\<close> itself and to an interface type without
  methods.
\<close>

definition string_to_slice :: "gtype \<Rightarrow> Kind \<Rightarrow> bool" where
  "string_to_slice t k \<longleftrightarrow>
     type_Kind t = Slice \<and>
     (case type_Elem t of
        None \<Rightarrow> False
      | Some e \<Rightarrow> type_PkgPath e = [] \<and> type_Kind e = k)"

definition Convert_string :: "string \<Rightarrow> gtype \<Rightarrow> Value outcome" where
  "Convert_string s t =
     (if string_to_slice t Uint8 then Ok (t, bytes_raw s)
      else if string_to_slice t Int32 then Ok (t, runes_raw s)
      else if type_Kind t = String then Ok (t, RString s)
      else if type_Kind t = Interface \<and> type_NumMethod t = 0 then Ok (t, RString s)
      else Panic (ReflectPanic ''reflect.Value.Convert: value of type string cannot be converted to type''))"

definition assignable_from_string :: "gtype \<Rightarrow> bool" where
  "assignable_from_string t \<longleftrightarrow>
     type_Kind t = String \<and> type_Name t = ''string'' \<and> type_PkgPath t = [] \<or>
     type_Kind t = Interface \<and> type_NumMethod t = 0"

text \<open>
  \<open>messageHandler\<close> makes a closure over \<open>messagePattern\<close>, \<open>messageKey\<close> and
  \<open>resultType\<close>; \<open>handler_call\<close> is the body of that closure, run on the closure
  \<open>h\<close> with the arguments \<open>args\<close>. The assignment \<open>messagePattern = message\<close>
  writes the captured variable.
\<close>

definition messageHandler :: "string \<Rightarrow> string \<Rightarrow> gtype \<Rightarrow> world \<Rightarrow> nat \<times> world" where
  "messageHandler messagePattern messageKey resultType w =
     (length (closures w),
      w\<lparr>closures := closures w @
           [\<lparr>h_messagePattern = messagePattern, h_messageKey = messageKey,
             h_resultType = resultType\<rparr>]\<rparr>)"

definition handler_call :: "externals \<Rightarrow> nat \<Rightarrow> Value list \<Rightarrow> world \<Rightarrow> Value list outcome \<times> world" where
  "handler_call ext h args w =
     (if h \<ge> length (closures w)
      then (Panic (RuntimeError ''invalid memory address or nil pointer dereference''), w)
      else
        let c = closures w ! h;
            messagePattern = (case dictionary (mf w) (h_messageKey c) of
                                Some message \<Rightarrow> message
                              | None \<Rightarrow> h_messagePattern c);
            w1 = w\<lparr>closures := (closures w)[h := c\<lparr>h_messagePattern := messagePattern\<rparr>]\<rparr>;
            formattedParams = map formatParam args;
            message = Sprintf ext messagePattern formattedParams;
            resultType = h_resultType c;
            resultValue = (resultType, zero_raw (type_Kind resultType))
        in (case resultFormatter_of resultValue of
              Some resultFormatter \<Rightarrow>
                (case Convert_string (resultFormatter message) resultType of
                   Panic e \<Rightarrow> (Panic e, w1)
                 | Ok messageValue \<Rightarrow> (Ok [messageValue], w1))
            | None \<Rightarrow>
                if assignable_from_string resultType
                then (Ok [(resultType, RString message)], w1)
                else (Panic (ReflectPanic ''reflect.Set: value of type string is not assignable to type''), w1)))"

text \<open>
  The function held by a field is made by \<open>reflect.MakeFunc\<close> from the type of the
  field and the closure. A call of it hands the closure the arguments of the call; when
  the type is variadic, the arguments from the last parameter on arrive as one value, a
  slice of the type of that parameter.
\<close>

definition MakeFunc_args :: "gtype \<Rightarrow> Value list \<Rightarrow> Value list" where
  "MakeFunc_args typ args =
     (if type_IsVariadic typ \<and> type_In typ \<noteq> []
      then take (length (type_In typ) - 1) args @
           [(last (type_In typ), RSlice (map snd (drop (length (type_In typ) - 1) args)))]
      else args)"

text \<open>Calling the function held by the field \<open>name\<close> of the struct at \<open>a\<close>.\<close>

definition call_field :: "externals \<Rightarrow> addr \<Rightarrow> string \<Rightarrow> Value list \<Rightarrow> world \<Rightarrow> Value list outcome \<times> world" where
  "call_field ext a name args w =
     (case (field_value w a name, FieldByName (ctype (heap w ! a)) name) of
        (RFunc h, Some f) \<Rightarrow> handler_call ext h (MakeFunc_args (Type f) args) w
      | _ \<Rightarrow> (Panic (RuntimeError ''invalid memory address or nil pointer dereference''), w))"

text \<open>
  \<open>initializeField\<close>. The key is \<open>fmt.Sprintf("%v.%v", concreteType.Name(), field.Name)\<close>,
  the two names joined by a dot.
\<close>

definition initializeField :: "gtype \<Rightarrow> StructField \<Rightarrow> fieldref \<Rightarrow> world \<Rightarrow> unit outcome \<times> world" where
  "initializeField concreteType field instanceField w =
     (let messageKey = type_Name concreteType @ ''.'' @ Name field;
          messagePattern = Tag_Get (Tag field) defaultMessageTag
      in if type_Kind (Type field) = String then
           (case Value_Interface instanceField w of
              Panic e \<Rightarrow> (Panic e, w)
            | Ok current \<Rightarrow>
                let message = (case resultFormatter_of current of
                                 Some resultFormatter \<Rightarrow> resultFormatter messagePattern
                               | None \<Rightarrow> messagePattern);
                    w1 = w\<lparr>mf := (mf w)\<lparr>stringInitializers := stringInitializers (mf w) @
                           [\<lparr>si_messagePattern = messagePattern, si_messageKey = messageKey,
                             si_instanceField = instanceField\<rparr>]\<rparr>\<rparr>
                in Value_SetString instanceField message w1)
         else
           (case NumOut (Type field) of
              Panic e \<Rightarrow> (Panic e, w)
            | Ok n \<Rightarrow>
                if n \<noteq> 1 then (Panic (WrongResultsCount n), w)
                else
                  (case Out (Type field) 0 of
                     Panic e \<Rightarrow> (Panic e, w)
                   | Ok resultType \<Rightarrow>
                       (case messageHandler messagePattern messageKey resultType w of
                          (messageProxyFunc, w1) \<Rightarrow>
                            Value_Set instanceField Func (RFunc messageProxyFunc) w1))))"

text \<open>
  \<open>initializeStruct\<close>, its loop over the fields (\<open>initializeFields\<close>, on the fields
  still to do) and \<open>initializeEmbeddedStruct\<close>. The three call each other, and on a
  struct type that embeds a pointer to itself they never return: the first argument is
  fuel, spent by each call of \<open>initializeStruct\<close>, and \<open>None\<close> is what is left of a
  run when it is used up.
  \<open>structPtr\<close> is a pointer: an address of the heap (one outside the heap is the nil
  pointer, whose \<open>Indirect\<close> has no type).
\<close>

fun initializeStruct :: "nat \<Rightarrow> addr \<Rightarrow> world \<Rightarrow> (unit outcome \<times> world) option"
and initializeFields :: "nat \<Rightarrow> gtype \<Rightarrow> addr \<Rightarrow> StructField list \<Rightarrow> world \<Rightarrow> (unit outcome \<times> world) option"
and initializeEmbeddedStruct :: "nat \<Rightarrow> StructField \<Rightarrow> fieldref \<Rightarrow> world \<Rightarrow> (unit outcome \<times> world) option"
where
  "initializeStruct 0 structPtr w = None"
| "initializeStruct (Suc fuel) structPtr w =
     (if structPtr \<ge> length (heap w)
      then Some (Panic (ReflectPanic ''reflect: call of reflect.Value.Type on zero Value''), w)
      else
        let concreteType = ctype (heap w ! structPtr)
        in (case NumField concreteType of
              Panic e \<Rightarrow> Some (Panic e, w)
            | Ok n \<Rightarrow> initializeFields fuel concreteType structPtr (type_Fields concreteType) w))"
| "initializeFields fuel concreteType structPtr [] w = Some (Ok (), w)"
| "initializeFields fuel concreteType structPtr (field # rest) w =
     (let instanceField = (structPtr, FieldByName concreteType (Name field))
      in (case (if Anonymous field
                then initializeEmbeddedStruct fuel field instanceField w
                else Some (initializeField concreteType field instanceField w)) of
            None \<Rightarrow> None
          | Some (Panic e, w') \<Rightarrow> Some (Panic e, w')
          | Some (Ok u, w') \<Rightarrow> initializeFields fuel concreteType structPtr rest w'))"
| "initializeEmbeddedStruct fuel field instanceField w =
     (case Elem (Type field) of
        Panic e \<Rightarrow> Some (Panic e, w)
      | Ok elemType \<Rightarrow>
          let embeddedStruct = length (heap w);
              w1 = w\<lparr>heap := heap w @ [zero_cell elemType]\<rparr>
          in (case Value_Set instanceField Pointer (RPtr embeddedStruct) w1 of
                (Panic e, w2) \<Rightarrow> Some (Panic e, w2)
              | (Ok u, w2) \<Rightarrow> initializeStruct fuel embeddedStruct w2))"

text \<open>\<open>Init\<close> returns the pointer it was given.\<close>

definition Init :: "nat \<Rightarrow> addr \<Rightarrow> world \<Rightarrow> (addr outcome \<times> world) option" where
  "Init fuel structPtr w =
     (case initializeStruct fuel structPtr w of
        None \<Rightarrow> None
      | Some (Panic e, w') \<Rightarrow> Some (Panic e, w')
      | Some (Ok u, w') \<Rightarrow> Some (Ok structPtr, w'))"

section \<open>Notions the statements use\<close>

text \<open>The pattern a call of the closure \<open>h\<close> resolves in the world \<open>w\<close>.\<close>

definition active_pattern :: "world \<Rightarrow> nat \<Rightarrow> string" where
  "active_pattern w h =
     (case dictionary (mf w) (h_messageKey (closures w ! h)) of
        Some message \<Rightarrow> message
      | None \<Rightarrow> h_messagePattern (closures w ! h))"

text \<open>
  The result of a call whose formatted message is \<open>message\<close>, for the result type
  \<open>R\<close>: the last block of the closure of \<open>messageHandler\<close>.
\<close>

definition message_result :: "gtype \<Rightarrow> string \<Rightarrow> Value list outcome" where
  "message_result R message =
     (case resultFormatter_of (R, zero_raw (type_Kind R)) of
        Some resultFormatter \<Rightarrow>
          (case Convert_string (resultFormatter message) R of
             Panic e \<Rightarrow> Panic e
           | Ok v \<Rightarrow> Ok [v])
      | None \<Rightarrow>
          if assignable_from_string R then Ok [(R, RString message)]
          else Panic (ReflectPanic ''reflect.Set: value of type string is not assignable to type''))"

text \<open>
  Go rejects a struct type with two fields of one name, the blank name \<open>_\<close> apart, and
  a blank field is not exported. So \<open>FieldByName\<close>, asked for the name of a field of the
  type, finds that field or one that is not exported.
\<close>

definition go_struct :: "gtype \<Rightarrow> bool" where
  "go_struct T \<longleftrightarrow>
     (\<forall>f \<in> set (type_Fields T).
        case FieldByName T (Name f) of None \<Rightarrow> False | Some g \<Rightarrow> g = f \<or> PkgPath g \<noteq> [])"

definition types_ok :: "world \<Rightarrow> bool" where
  "types_ok w \<longleftrightarrow> (\<forall>c \<in> set (heap w). go_struct (ctype c))"

text \<open>
  A refresh closure as \<open>initializeField\<close> makes it: bound to an exported string field of
  a struct variable of the heap, with the key and the default pattern of that field.
\<close>

definition target_ok :: "world \<Rightarrow> stringInitializer \<Rightarrow> bool" where
  "target_ok w si \<longleftrightarrow>
     (case si_instanceField si of
        (a, None) \<Rightarrow> False
      | (a, Some f) \<Rightarrow>
          a < length (heap w) \<and> FieldByName (ctype (heap w ! a)) (Name f) = Some f \<and>
          PkgPath f = [] \<and> type_Kind (Type f) = String \<and>
          si_messageKey si = type_Name (ctype (heap w ! a)) @ ''.'' @ Name f \<and>
          si_messagePattern si = Tag_Get (Tag f) defaultMessageTag)"

definition inits_ok :: "world \<Rightarrow> bool" where
  "inits_ok w \<longleftrightarrow> (\<forall>si \<in> set (stringInitializers (mf w)). target_ok w si)"

text \<open>
  What a run of the initializers leaves alone, from \<open>w\<close> to \<open>w'\<close>: the locales and the
  dictionary; the refresh closures and the handler closures there were (new ones are
  appended); the variables there were and their types, and their fields but for the
  fields named in \<open>names\<close> of the variable at \<open>p\<close>.
\<close>

definition frame :: "addr \<Rightarrow> string set \<Rightarrow> world \<Rightarrow> world \<Rightarrow> bool" where
  "frame p names w w' \<longleftrightarrow>
     locales (mf w') = locales (mf w) \<and> dictionary (mf w') = dictionary (mf w) \<and>
     prefix (stringInitializers (mf w)) (stringInitializers (mf w')) \<and>
     prefix (closures w) (closures w') \<and>
     length (heap w) \<le> length (heap w') \<and>
     (\<forall>a < length (heap w). ctype (heap w' ! a) = ctype (heap w ! a) \<and>
        (\<forall>name. a \<noteq> p \<or> name \<notin> names \<longrightarrow>
           cfields (heap w' ! a) name = cfields (heap w ! a) name))"

text \<open>The names a reflected field can write to.\<close>

definition ref_names :: "fieldref \<Rightarrow> string set" where
  "ref_names r = (case snd r of None \<Rightarrow> {} | Some f \<Rightarrow> {Name f})"

text \<open>
  What a string field shows under a dictionary: the dictionary's entry for the key of the
  field, or else the default pattern of its tag.
\<close>

definition localized :: "(string \<rightharpoonup> string) \<Rightarrow> gtype \<Rightarrow> StructField \<Rightarrow> string" where
  "localized d T f =
     (case d (type_Name T @ ''.'' @ Name f) of
        Some v \<Rightarrow> v
      | None \<Rightarrow> Tag_Get (Tag f) defaultMessageTag)"

text \<open>
  The field \<open>name\<close> of the variable at \<open>a\<close> after the refresh closures \<open>sis\<close> have
  run in the world \<open>w\<close>: refreshed when one of them is bound to it, else as it was.
\<close>

definition refreshed :: "stringInitializer list \<Rightarrow> world \<Rightarrow> addr \<Rightarrow> string \<Rightarrow> raw" where
  "refreshed sis w a name =
     (case FieldByName (ctype (heap w ! a)) name of
        None \<Rightarrow> cfields (heap w ! a) name
      | Some f \<Rightarrow>
          if (a, Some f) \<in> si_instanceField ` set sis
          then RString (localized (dictionary (mf w)) (ctype (heap w ! a)) f)
          else cfields (heap w ! a) name)"

text \<open>
  The refresh closure \<open>initializeField\<close> makes for the string field \<open>f\<close> of the
  struct variable of type \<open>T\<close> at \<open>p\<close>; the factory holds it once the field is
  initialized.
\<close>

definition initializer_of :: "gtype \<Rightarrow> addr \<Rightarrow> StructField \<Rightarrow> stringInitializer" where
  "initializer_of T p f =
     \<lparr>si_messagePattern = Tag_Get (Tag f) defaultMessageTag,
      si_messageKey = type_Name T @ ''.'' @ Name f,
      si_instanceField = (p, Some f)\<rparr>"

text \<open>The body of the loop of \<open>initializeStruct\<close>, for one field.\<close>

definition loop_body :: "nat \<Rightarrow> gtype \<Rightarrow> addr \<Rightarrow> StructField \<Rightarrow> world \<Rightarrow> (unit outcome \<times> world) option" where
  "loop_body n T p field w =
     (if Anonymous field
      then initializeEmbeddedStruct n field (p, FieldByName T (Name field)) w
      else Some (initializeField T field (p, FieldByName T (Name field)) w))"

text \<open>
  The value \<open>initializeField\<close> sets into a string field of type \<open>R\<close> with the default
  pattern \<open>P\<close>, when the field held \<open>recv\<close>.
\<close>

definition hooked :: "gtype \<Rightarrow> raw \<Rightarrow> string \<Rightarrow> string" where
  "hooked R recv P = (case resultFormatter_of (R, recv) of Some m \<Rightarrow> m P | None \<Rightarrow> P)"


text \<open>
  A string field as \<open>initializeField\<close> leaves it: it holds its default pattern, passed
  through the result formatter of its type if it has one, and the factory holds its
  refresh closure.
\<close>

definition string_wired :: "world \<Rightarrow> addr \<Rightarrow> gtype \<Rightarrow> StructField \<Rightarrow> bool" where
  "string_wired w p T f \<longleftrightarrow>
     (\<exists>recv. field_value w p (Name f) =
        RString (hooked (Type f) recv (Tag_Get (Tag f) defaultMessageTag))) \<and>
     initializer_of T p f \<in> set (stringInitializers (mf w))"


text \<open>
  The record types \<open>Init\<close> is made for, to the depth \<open>n\<close> of embedding: a struct type
  whose fields are exported and found by their names, each a string, a function with one
  result, or an embedded pointer to such a record type of depth below \<open>n\<close>.
\<close>

fun initializable :: "nat \<Rightarrow> gtype \<Rightarrow> bool" where
  "initializable 0 T = False"
| "initializable (Suc n) T =
     (type_Kind T = Struct \<and>
      (\<forall>f \<in> set (type_Fields T).
         FieldByName T (Name f) = Some f \<and> PkgPath f = [] \<and>
         (if Anonymous f
          then type_Kind (Type f) = Pointer \<and>
               (case type_Elem (Type f) of None \<Rightarrow> False | Some E \<Rightarrow> initializable n E)
          else type_Kind (Type f) = String \<or>
               type_Kind (Type f) = Func \<and> length (type_Out (Type f)) = 1)))"

section \<open>An example program\<close>

text \<open>
  A fragment of \<open>fmt.Sprintf\<close>, enough for the patterns of the examples: the verb
  \<open>%v\<close> with strings and slices of strings as operands, a slice printed as its
  elements between brackets.
\<close>

fun unwords :: "string list \<Rightarrow> string" where
  "unwords [] = []"
| "unwords [s] = s"
| "unwords (s # t # ss) = s @ '' '' @ unwords (t # ss)"

fun render_raw :: "raw \<Rightarrow> string" where
  "render_raw (RString s) = s"
| "render_raw (RSlice rs) = ''['' @ unwords (map render_raw rs) @ '']''"
| "render_raw v = ''?''"

fun render :: "Value \<Rightarrow> string" where
  "render (t, v) = render_raw v"

fun sprintf_v :: "string \<Rightarrow> Value list \<Rightarrow> string" where
  "sprintf_v [] vs = []"
| "sprintf_v [c] vs = [c]"
| "sprintf_v (c # d # rest) vs =
     (if c = CHR ''%'' \<and> d = CHR ''v''
      then (case vs of
              [] \<Rightarrow> ''%!v(MISSING)'' @ sprintf_v rest []
            | v # vs' \<Rightarrow> render v @ sprintf_v rest vs')
      else c # sprintf_v (d # rest) vs)"

text \<open>
  One loader, for the format \<open>yaml\<close>: \<open>fr.yaml\<close> translates the greeting,
  \<open>en.yaml\<close> translates nothing, any other file is missing.
\<close>

definition demo_loader :: "string \<Rightarrow> panic + (string \<rightharpoonup> string)" where
  "demo_loader p =
     (if p = ''fr.yaml''
      then Inr [''Greeter.Hello'' \<mapsto> ''Bonjour, %v!'', ''Greeter.Title'' \<mapsto> ''Salutations'',
                ''Page.Footer'' \<mapsto> ''au revoir'']
      else if p = ''en.yaml'' then Inr Map.empty
      else Inl (LoaderPanic p))"

definition demo_ext :: externals where
  "demo_ext = \<lparr>Sprintf = sprintf_v,
               GetLoader = (\<lambda>f. if f = ''yaml'' then Some demo_loader else None)\<rparr>"

text \<open>
  \<open>type Shout string\<close> with \<open>G11nResult(m) = m + "!"\<close>;
  \<open>type Acc string\<close> with \<open>G11nResult(m) = string(a) + m\<close>, which reads its receiver;
  \<open>type Tagged string\<close> with \<open>G11nParam() = "<" + string(t) + ">"\<close>.
\<close>

definition Shout_t :: gtype where
  "Shout_t = GType ''Shout'' ''main'' String [] False [] None [] 0 None (Some (\<lambda>recv m. m @ ''!''))"

definition Acc_t :: gtype where
  "Acc_t = GType ''Acc'' ''main'' String [] False [] None [] 0 None
     (Some (\<lambda>recv m. (case recv of RString s \<Rightarrow> s @ m | _ \<Rightarrow> m)))"

definition Tagged_t :: gtype where
  "Tagged_t = GType ''Tagged'' ''main'' String [] False [] None [] 0
     (Some (\<lambda>recv. (case recv of RString s \<Rightarrow> ''<'' @ s @ ''>'' | _ \<Rightarrow> ''<>''))) None"

definition int_t :: gtype where
  "int_t = GType ''int'' [] Int_k [] False [] None [] 0 None None"

text \<open>\<open>func(string) string\<close>, \<open>func(string) Shout\<close> and \<open>func() (string, string)\<close>.\<close>

definition func_string_t :: gtype where
  "func_string_t = GType [] [] Func [string_t] False [string_t] None [] 0 None None"

definition func_Shout_t :: gtype where
  "func_Shout_t = GType [] [] Func [string_t] False [Shout_t] None [] 0 None None"

definition func_pair_t :: gtype where
  "func_pair_t = GType [] [] Func [] False [string_t, string_t] None [] 0 None None"

text \<open>
  \<^verbatim>\<open>type Greeter struct {
    Hello func(string) string `default:"Hello, %v!"`
    Title string              `default:"Greetings"`
  }\<close>
\<close>

definition Hello_f :: StructField where
  "Hello_f = StructField ''Hello'' [] func_string_t [(''default'', ''Hello, %v!'')] False"

definition Title_f :: StructField where
  "Title_f = StructField ''Title'' [] string_t [(''default'', ''Greetings'')] False"

definition Greeter_t :: gtype where
  "Greeter_t = GType ''Greeter'' ''main'' Struct [] False [] None [Hello_f, Title_f] 0 None None"

text \<open>
  \<^verbatim>\<open>type Pair struct {
    Title string                 `default:"Greetings"`
    Both  func() (string, string) `default:"both"`
  }
  type Counter struct {
    Title string `default:"Greetings"`
    Count int    `default:"count"`
  }\<close>
\<close>

definition Both_f :: StructField where
  "Both_f = StructField ''Both'' [] func_pair_t [(''default'', ''both'')] False"

definition Pair_t :: gtype where
  "Pair_t = GType ''Pair'' ''main'' Struct [] False [] None [Title_f, Both_f] 0 None None"

definition Count_f :: StructField where
  "Count_f = StructField ''Count'' [] int_t [(''default'', ''count'')] False"

definition Counter_t :: gtype where
  "Counter_t = GType ''Counter'' ''main'' Struct [] False [] None [Title_f, Count_f] 0 None None"

text \<open>A world with a new factory and one variable of the given type, at address 0.\<close>

definition world_of :: "gtype \<Rightarrow> world" where
  "world_of t = \<lparr>mf = New, heap = [zero_cell t], closures = []\<rparr>"

definition greeter_world :: world where
  "greeter_world =
     \<lparr>mf = New\<lparr>stringInitializers :=
             [\<lparr>si_messagePattern = ''Greetings'', si_messageKey = ''Greeter.Title'',
               si_instanceField = (0, Some Title_f)\<rparr>]\<rparr>,
      heap = [\<lparr>ctype = Greeter_t,
               cfields = (cfields (zero_cell Greeter_t))
                 (''Hello'' := RFunc 0, ''Title'' := RString ''Greetings'')\<rparr>],
      closures = [\<lparr>h_messagePattern = ''Hello, %v!'', h_messageKey = ''Greeter.Hello'',
                   h_resultType = string_t\<rparr>]\<rparr>"

text \<open>The world after \<open>Init\<close> of a \<open>Greeter\<close>, with the locales \<open>fr\<close> and \<open>en\<close> registered.\<close>

definition greeter_locales :: world where
  "greeter_locales =
     SetLocale ''fr'' ''yaml'' ''fr.yaml'' (SetLocale ''en'' ''yaml'' ''en.yaml'' greeter_world)"

text \<open>
  \<^verbatim>\<open>type Page struct {
    Footer Shout              `default:"bye"`
    Cheer  func(string) Shout `default:"Go %v"`
  }\<close>
  and the world after \<open>Init\<close> of a \<open>Page\<close>, with the locales \<open>fr\<close> and \<open>en\<close>
  registered.
\<close>

definition Footer_f :: StructField where
  "Footer_f = StructField ''Footer'' [] Shout_t [(''default'', ''bye'')] False"

definition Cheer_f :: StructField where
  "Cheer_f = StructField ''Cheer'' [] func_Shout_t [(''default'', ''Go %v'')] False"

definition Page_t :: gtype where
  "Page_t = GType ''Page'' ''main'' Struct [] False [] None [Footer_f, Cheer_f] 0 None None"

definition page_world :: world where
  "page_world =
     \<lparr>mf = New\<lparr>stringInitializers :=
             [\<lparr>si_messagePattern = ''bye'', si_messageKey = ''Page.Footer'',
               si_instanceField = (0, Some Footer_f)\<rparr>]\<rparr>,
      heap = [\<lparr>ctype = Page_t,
               cfields = (cfields (zero_cell Page_t))
                 (''Footer'' := RString ''bye!'', ''Cheer'' := RFunc 0)\<rparr>],
      closures = [\<lparr>h_messagePattern = ''Go %v'', h_messageKey = ''Page.Cheer'',
                   h_resultType = Shout_t\<rparr>]\<rparr>"

definition page_locales :: world where
  "page_locales =
     SetLocale ''fr'' ''yaml'' ''fr.yaml'' (SetLocale ''en'' ''yaml'' ''en.yaml'' page_world)"




text \<open>
  \<^verbatim>\<open>type Ledger struct {
    Total Acc `default:"T"`
  }\<close>
  and the worlds after one and after two \<open>Init\<close> of a \<open>Ledger\<close>.
\<close>

definition Total_f :: StructField where
  "Total_f = StructField ''Total'' [] Acc_t [(''default'', ''T'')] False"

definition Ledger_t :: gtype where
  "Ledger_t = GType ''Ledger'' ''main'' Struct [] False [] None [Total_f] 0 None None"

definition ledger_once :: world where
  "ledger_once =
     \<lparr>mf = New\<lparr>stringInitializers :=
             [\<lparr>si_messagePattern = ''T'', si_messageKey = ''Ledger.Total'',
               si_instanceField = (0, Some Total_f)\<rparr>]\<rparr>,
      heap = [\<lparr>ctype = Ledger_t,
               cfields = (cfields (zero_cell Ledger_t))(''Total'' := RString ''T'')\<rparr>],
      closures = []\<rparr>"

definition ledger_twice :: world where
  "ledger_twice =
     \<lparr>mf = New\<lparr>stringInitializers :=
             [\<lparr>si_messagePattern = ''T'', si_messageKey = ''Ledger.Total'',
               si_instanceField = (0, Some Total_f)\<rparr>,
              \<lparr>si_messagePattern = ''T'', si_messageKey = ''Ledger.Total'',
               si_instanceField = (0, Some Total_f)\<rparr>]\<rparr>,
      heap = [\<lparr>ctype = Ledger_t,
               cfields = (cfields (zero_cell Ledger_t))(''Total'' := RString ''TT'')\<rparr>],
      closures = []\<rparr>"










text \<open>
  \<^verbatim>\<open>type Tally struct {
    Count int                     `default:"count"`
    Both  func() (string, string) `default:"both"`
  }
  type Handler func() (string, string)
  type Hub struct {
    Handler
  }\<close>
\<close>

definition Tally_t :: gtype where
  "Tally_t = GType ''Tally'' ''main'' Struct [] False [] None [Count_f, Both_f] 0 None None"

definition Handler_t :: gtype where
  "Handler_t = GType ''Handler'' ''main'' Func [] False [string_t, string_t] None [] 0 None None"

definition Handler_f :: StructField where
  "Handler_f = StructField ''Handler'' [] Handler_t [] True"

definition Hub_t :: gtype where
  "Hub_t = GType ''Hub'' ''main'' Struct [] False [] None [Handler_f] 0 None None"

text \<open>
  \<open>type Bytes []byte\<close> and \<open>type Runes []rune\<close>, each with
  \<open>G11nResult(m) = m + "!"\<close>,
  \<open>type Stamp struct{}\<close> with the same method, and
  \<^verbatim>\<open>type Wire struct {
    Send  func(string) Bytes `default:"Go %v"`
    Spell func(string) Runes `default:"S %v"`
    Mark  func(string) Stamp `default:"M %v"`
  }\<close>
  with the world after \<open>Init\<close> of a \<open>Wire\<close>.
\<close>

definition uint8_t :: gtype where
  "uint8_t = GType ''uint8'' [] Uint8 [] False [] None [] 0 None None"

definition int32_t :: gtype where
  "int32_t = GType ''int32'' [] Int32 [] False [] None [] 0 None None"

definition Bytes_t :: gtype where
  "Bytes_t = GType ''Bytes'' ''main'' Slice [] False [] (Some uint8_t) [] 0 None
     (Some (\<lambda>recv m. m @ ''!''))"

definition Runes_t :: gtype where
  "Runes_t = GType ''Runes'' ''main'' Slice [] False [] (Some int32_t) [] 0 None
     (Some (\<lambda>recv m. m @ ''!''))"

definition Stamp_t :: gtype where
  "Stamp_t = GType ''Stamp'' ''main'' Struct [] False [] None [] 0 None
     (Some (\<lambda>recv m. m @ ''!''))"

definition func_Bytes_t :: gtype where
  "func_Bytes_t = GType [] [] Func [string_t] False [Bytes_t] None [] 0 None None"

definition func_Runes_t :: gtype where
  "func_Runes_t = GType [] [] Func [string_t] False [Runes_t] None [] 0 None None"

definition func_Stamp_t :: gtype where
  "func_Stamp_t = GType [] [] Func [string_t] False [Stamp_t] None [] 0 None None"

definition Send_f :: StructField where
  "Send_f = StructField ''Send'' [] func_Bytes_t [(''default'', ''Go %v'')] False"

definition Spell_f :: StructField where
  "Spell_f = StructField ''Spell'' [] func_Runes_t [(''default'', ''S %v'')] False"

definition Mark_f :: StructField where
  "Mark_f = StructField ''Mark'' [] func_Stamp_t [(''default'', ''M %v'')] False"

definition Wire_t :: gtype where
  "Wire_t = GType ''Wire'' ''main'' Struct [] False [] None [Send_f, Spell_f, Mark_f] 0 None None"

definition wire_world :: world where
  "wire_world =
     \<lparr>mf = New,
      heap = [\<lparr>ctype = Wire_t,
               cfields = (cfields (zero_cell Wire_t))
                 (''Send'' := RFunc 0, ''Spell'' := RFunc 1, ''Mark'' := RFunc 2)\<rparr>],
      closures = [\<lparr>h_messagePattern = ''Go %v'', h_messageKey = ''Wire.Send'',
                   h_resultType = Bytes_t\<rparr>,
                  \<lparr>h_messagePattern = ''S %v'', h_messageKey = ''Wire.Spell'',
                   h_resultType = Runes_t\<rparr>,
                  \<lparr>h_messagePattern = ''M %v'', h_messageKey = ''Wire.Mark'',
                   h_resultType = Stamp_t\<rparr>]\<rparr>"

text \<open>
  \<^verbatim>\<open>type Formatter interface {
    G11nResult(formattedMessage string) string
  }
  type Board struct {
    Note func(string) Formatter `default:"Note %v"`
  }\<close>
  with the world after \<open>Init\<close> of a \<open>Board\<close>.
\<close>

definition Formatter_t :: gtype where
  "Formatter_t = GType ''Formatter'' ''main'' Interface [] False [] None [] 1 None
     (Some (\<lambda>recv m. m))"

definition func_Formatter_t :: gtype where
  "func_Formatter_t = GType [] [] Func [string_t] False [Formatter_t] None [] 0 None None"

definition Note_f :: StructField where
  "Note_f = StructField ''Note'' [] func_Formatter_t [(''default'', ''Note %v'')] False"

definition Board_t :: gtype where
  "Board_t = GType ''Board'' ''main'' Struct [] False [] None [Note_f] 0 None None"

definition board_world :: world where
  "board_world =
     \<lparr>mf = New,
      heap = [\<lparr>ctype = Board_t,
               cfields = (cfields (zero_cell Board_t))(''Note'' := RFunc 0)\<rparr>],
      closures = [\<lparr>h_messagePattern = ''Note %v'', h_messageKey = ''Board.Note'',
                   h_resultType = Formatter_t\<rparr>]\<rparr>"

lemmas example_defs =
  world_of_def New_def zero_cell_def FieldByName_def NumField_def NumOut_def Out_def Elem_def
  Tag_Get_def defaultMessageTag_def string_t_def int_t_def Shout_t_def Acc_t_def Tagged_t_def
  func_string_t_def func_Shout_t_def func_pair_t_def
  Hello_f_def Title_f_def Greeter_t_def Both_f_def Pair_t_def Count_f_def Counter_t_def
  demo_ext_def demo_loader_def


lemmas wire_defs =
  uint8_t_def int32_t_def Bytes_t_def Runes_t_def Stamp_t_def func_Bytes_t_def func_Runes_t_def
  func_Stamp_t_def Send_f_def Spell_f_def Mark_f_def Wire_t_def wire_world_def

lemmas board_defs =
  Formatter_t_def func_Formatter_t_def Note_f_def Board_t_def board_world_def

lemmas run_defs =
  Init_def initializeField_def messageHandler_def Value_Interface_def Value_SetString_def
  Value_Set_def resultFormatter_of_def store_def field_value_def Let_def
  LoadLocale_def SetLocale_def run_initializer_def initializeEmbeddedStruct.simps

declare initializeEmbeddedStruct.simps [simp del]

section \<open>Lemmas on the initializers\<close>

lemma initializeField_wrong_arity:
  "type_Kind (Type field) = Func \<Longrightarrow> length (type_Out (Type field)) \<noteq> 1 \<Longrightarrow>
   initializeField T field r w = (Panic (WrongResultsCount (length (type_Out (Type field)))), w)"
  by (simp add: initializeField_def NumOut_def)


text \<open>The loop over the fields stops at the first field that panics.\<close>

lemma initializeFields_append:
  "initializeFields n T p (pre @ rest) w =
     (case initializeFields n T p pre w of
        None \<Rightarrow> None
      | Some (Panic e, w') \<Rightarrow> Some (Panic e, w')
      | Some (Ok u, w') \<Rightarrow> initializeFields n T p rest w')"
  by (induction pre arbitrary: w)
     (auto simp: Let_def split: option.splits prod.splits outcome.splits)

lemma initializeFields_never_Ok:
  assumes "f \<in> set fs" and "\<not> Anonymous f"
    and "\<And>r v. \<exists>e. initializeField T f r v = (Panic e, v)"
  shows "initializeFields n T p fs w \<noteq> Some (Ok u, w')"
  using assms(1)
proof (induction fs arbitrary: w)
  case Nil
  then show ?case by simp
next
  case (Cons g gs)
  show ?case
  proof (cases "g = f")
    case True
    obtain e where "initializeField T f (p, FieldByName T (Name f)) w = (Panic e, w)"
      using assms(3) by blast
    with True assms(2) show ?thesis by simp
  next
    case False
    with Cons.prems have "f \<in> set gs" by simp
    from Cons.IH [OF this] show ?thesis
      by (auto split: option.splits prod.splits outcome.splits simp: Let_def)
  qed
qed

lemma initializeStruct_never_Ok:
  assumes "f \<in> set (type_Fields (ctype (heap w ! p)))" and "\<not> Anonymous f"
    and "\<And>r v. \<exists>e. initializeField (ctype (heap w ! p)) f r v = (Panic e, v)"
  shows "initializeStruct fuel p w \<noteq> Some (Ok u, w')"
proof (cases fuel)
  case 0
  then show ?thesis by simp
next
  case (Suc n)
  have "initializeFields n (ctype (heap w ! p)) p (type_Fields (ctype (heap w ! p))) w \<noteq> Some (Ok u, w')"
    using assms(3) by (intro initializeFields_never_Ok [OF assms(1,2)]) blast
  with Suc show ?thesis
    by (auto simp: Let_def split: outcome.splits)
qed

lemma Init_never_Ok:
  assumes "f \<in> set (type_Fields (ctype (heap w ! p)))" and "\<not> Anonymous f"
    and "\<And>r v. \<exists>e. initializeField (ctype (heap w ! p)) f r v = (Panic e, v)"
  shows "Init fuel p w \<noteq> Some (Ok q, w')"
  using initializeStruct_never_Ok [OF assms, of fuel _ w']
  by (auto simp: Init_def split: option.splits prod.splits outcome.splits)

text \<open>When the fields before a field are initialized, the panic of that field is \<open>Init\<close>'s.\<close>

lemma Init_panics_at:
  assumes "p < length (heap w)" and "type_Kind (ctype (heap w ! p)) = Struct"
    and "type_Fields (ctype (heap w ! p)) = pre @ f # post" and "\<not> Anonymous f"
    and "initializeFields fuel (ctype (heap w ! p)) p pre w = Some (Ok (), w1)"
    and "\<And>r v. initializeField (ctype (heap w ! p)) f r v = (Panic e, v)"
  shows "Init (Suc fuel) p w = Some (Panic e, w1)"
  using assms by (simp add: Init_def NumField_def initializeFields_append Let_def)

lemma Init_Greeter: "Init (Suc 0) 0 (world_of Greeter_t) = Some (Ok 0, greeter_world)"
  by (simp add: greeter_world_def example_defs run_defs)

lemma FieldByName_Some:
  "FieldByName T n = Some f \<Longrightarrow> Name f = n \<and> f \<in> set (type_Fields T)"
  by (auto simp: FieldByName_def find_Some_iff)

lemma FieldByName_of_field:
  "field \<in> set (type_Fields T) \<Longrightarrow> \<exists>f. FieldByName T (Name field) = Some f"
  by (cases "FieldByName T (Name field)") (auto simp: FieldByName_def find_None_iff)

lemma go_struct_found:
  "go_struct T \<Longrightarrow> field \<in> set (type_Fields T) \<Longrightarrow> FieldByName T (Name field) = Some f \<Longrightarrow>
   PkgPath f = [] \<Longrightarrow> f = field"
  by (auto simp: go_struct_def split: option.splits)

lemma frame_refl: "frame p names w w"
  by (simp add: frame_def)

lemma frame_trans:
  assumes "frame p N w w1" and "frame q M w1 w2"
    and "q \<ge> length (heap w) \<or> q = p \<and> M \<subseteq> N"
  shows "frame p N w w2"
proof -
  have le: "length (heap w) \<le> length (heap w1)" "length (heap w1) \<le> length (heap w2)"
    using assms(1,2) by (simp_all add: frame_def)
  have "ctype (heap w2 ! a) = ctype (heap w ! a) \<and>
        (\<forall>name. a \<noteq> p \<or> name \<notin> N \<longrightarrow> cfields (heap w2 ! a) name = cfields (heap w ! a) name)"
    if a: "a < length (heap w)" for a
  proof -
    have a1: "a < length (heap w1)" using a le by simp
    have 1: "ctype (heap w1 ! a) = ctype (heap w ! a)"
      "\<And>name. a \<noteq> p \<or> name \<notin> N \<Longrightarrow> cfields (heap w1 ! a) name = cfields (heap w ! a) name"
      using assms(1) a by (simp_all add: frame_def)
    have 2: "ctype (heap w2 ! a) = ctype (heap w1 ! a)"
      "\<And>name. a \<noteq> q \<or> name \<notin> M \<Longrightarrow> cfields (heap w2 ! a) name = cfields (heap w1 ! a) name"
      using assms(2) a1 by (simp_all add: frame_def)
    show ?thesis
    proof (intro conjI allI impI)
      show "ctype (heap w2 ! a) = ctype (heap w ! a)" using 1 2 by simp
    next
      fix name assume n: "a \<noteq> p \<or> name \<notin> N"
      have "a \<noteq> q \<or> name \<notin> M" using n assms(3) a by auto
      then show "cfields (heap w2 ! a) name = cfields (heap w ! a) name"
        using 1(2) [OF n] 2(2) by simp
    qed
  qed
  moreover have "prefix (stringInitializers (mf w)) (stringInitializers (mf w2))"
    "prefix (closures w) (closures w2)"
    using assms(1,2) by (auto simp: frame_def intro: prefix_order.trans)
  ultimately show ?thesis
    using assms(1,2) le by (simp add: frame_def)
qed

lemma frame_mono:
  "frame p N w w' \<Longrightarrow> N \<subseteq> M \<Longrightarrow> frame p M w w'"
  by (auto simp: frame_def)

lemma store_frame:
  "a < length (heap w) \<Longrightarrow> frame a {n} w (store a n v w)"
  by (auto simp: frame_def store_def nth_list_update)

lemma Value_SetString_frame:
  "Value_SetString r s w = (res, w') \<Longrightarrow> frame (fst r) (ref_names r) w w'"
  by (auto simp: Value_SetString_def ref_names_def frame_refl store_frame
      split: option.splits if_splits)

lemma Value_Set_frame:
  "Value_Set r k v w = (res, w') \<Longrightarrow> frame (fst r) (ref_names r) w w'"
  by (auto simp: Value_Set_def ref_names_def frame_refl store_frame
      split: option.splits if_splits)

lemma append_initializer_frame:
  "frame p N w (w\<lparr>mf := (mf w)\<lparr>stringInitializers := stringInitializers (mf w) @ [si]\<rparr>\<rparr>)"
  by (simp add: frame_def)

lemma append_closure_frame:
  "frame p N w (w\<lparr>closures := closures w @ [c]\<rparr>)"
  by (simp add: frame_def)

lemma alloc_frame:
  "frame p N w (w\<lparr>heap := heap w @ [c]\<rparr>)"
  by (simp add: frame_def nth_append)

lemma initializeField_frame:
  assumes "initializeField T field r w = (res, w')"
  shows "frame (fst r) (ref_names r) w w'"
proof (cases "type_Kind (Type field) = String")
  case True
  show ?thesis
  proof (cases "Value_Interface r w")
    case (Panic e)
    with True assms show ?thesis by (simp add: initializeField_def frame_refl)
  next
    case (Ok current)
    with True assms obtain s si where
      "Value_SetString r s (w\<lparr>mf := (mf w)\<lparr>stringInitializers := stringInitializers (mf w) @ [si]\<rparr>\<rparr>) = (res, w')"
      by (auto simp: initializeField_def Let_def)
    from frame_trans [OF append_initializer_frame [of "fst r" "ref_names r" w si]
        Value_SetString_frame [OF this]]
    show ?thesis by simp
  qed
next
  case False
  show ?thesis
  proof (cases "\<exists>R. NumOut (Type field) = Ok 1 \<and> Out (Type field) 0 = Ok R")
    case True
    then obtain R where "NumOut (Type field) = Ok 1" "Out (Type field) 0 = Ok R" by blast
    with False assms obtain c h where
      "Value_Set r Func (RFunc h) (w\<lparr>closures := closures w @ [c]\<rparr>) = (res, w')"
      by (auto simp: initializeField_def Let_def messageHandler_def)
    from frame_trans [OF append_closure_frame [of "fst r" "ref_names r" w c]
        Value_Set_frame [OF this]]
    show ?thesis by simp
  next
    case F: False
    with False assms have "w' = w"
      by (auto simp: initializeField_def Let_def split: outcome.splits if_splits)
    then show ?thesis by (simp add: frame_refl)
  qed
qed

lemma initializeEmbeddedStruct_frame:
  assumes IH: "\<And>p w res w'. initializeStruct n p w = Some (res, w') \<Longrightarrow> frame p UNIV w w'"
    and run: "initializeEmbeddedStruct n field r w = Some (res, w')"
  shows "frame (fst r) (ref_names r) w w'"
proof (cases "Elem (Type field)")
  case (Panic e)
  with run show ?thesis by (simp add: frame_refl initializeEmbeddedStruct.simps)
next
  case (Ok E)
  define w1 where "w1 = w\<lparr>heap := heap w @ [zero_cell E]\<rparr>"
  obtain res2 w2 where set: "Value_Set r Pointer (RPtr (length (heap w))) w1 = (res2, w2)"
    by (cases "Value_Set r Pointer (RPtr (length (heap w))) w1") auto
  have f2: "frame (fst r) (ref_names r) w w2"
    using frame_trans [OF alloc_frame [of "fst r" "ref_names r" w "zero_cell E"]
        Value_Set_frame [OF set [unfolded w1_def]]] by simp
  show ?thesis
  proof (cases res2)
    case (Panic e)
    with run Ok set have "w' = w2"
      by (simp add: Let_def w1_def initializeEmbeddedStruct.simps)
    with f2 show ?thesis by simp
  next
    case Ok2: (Ok u)
    with run Ok set have "initializeStruct n (length (heap w)) w2 = Some (res, w')"
      by (simp add: Let_def w1_def initializeEmbeddedStruct.simps)
    from frame_trans [OF f2 IH [OF this]] show ?thesis by simp
  qed
qed

lemma initializeFields_frame:
  assumes IH: "\<And>p w res w'. initializeStruct n p w = Some (res, w') \<Longrightarrow> frame p UNIV w w'"
  shows "initializeFields n T p fs w = Some (res, w') \<Longrightarrow> frame p (Name ` set fs) w w'"
proof (induction fs arbitrary: w)
  case Nil
  then show ?case by (simp add: frame_refl)
next
  case (Cons field rest)
  let ?r = "(p, FieldByName T (Name field))"
  have names: "ref_names ?r \<subseteq> Name ` set (field # rest)"
    by (auto simp: ref_names_def split: option.splits dest: FieldByName_Some)
  obtain res1 w1 where
    step: "(if Anonymous field then initializeEmbeddedStruct n field ?r w
            else Some (initializeField T field ?r w)) = Some (res1, w1)"
    using Cons.prems by (auto simp: Let_def split: option.splits)
  have "frame (fst ?r) (ref_names ?r) w w1"
  proof (cases "Anonymous field")
    case True
    with step have "initializeEmbeddedStruct n field ?r w = Some (res1, w1)" by simp
    then show ?thesis by (rule initializeEmbeddedStruct_frame [rotated]) (rule IH)
  next
    case False
    with step have "initializeField T field ?r w = (res1, w1)" by simp
    then show ?thesis by (rule initializeField_frame)
  qed
  then have f1: "frame p (Name ` set (field # rest)) w w1"
    using names frame_mono by fastforce
  show ?case
  proof (cases res1)
    case (Panic e)
    with Cons.prems step have "w' = w1" by (simp add: Let_def)
    with f1 show ?thesis by simp
  next
    case (Ok u)
    with Cons.prems step have "initializeFields n T p rest w1 = Some (res, w')"
      by (simp add: Let_def)
    from frame_trans [OF f1 Cons.IH [OF this]] show ?thesis by auto
  qed
qed

lemma initializeStruct_frame:
  "initializeStruct n p w = Some (res, w') \<Longrightarrow> frame p UNIV w w'"
proof (induction n arbitrary: p w res w')
  case 0
  then show ?case by simp
next
  case (Suc n)
  show ?case
  proof (cases "p < length (heap w) \<and> type_Kind (ctype (heap w ! p)) = Struct")
    case True
    with Suc.prems have
      "initializeFields n (ctype (heap w ! p)) p (type_Fields (ctype (heap w ! p))) w = Some (res, w')"
      by (simp add: Let_def NumField_def)
    then have "frame p (Name ` set (type_Fields (ctype (heap w ! p)))) w w'"
      by (rule initializeFields_frame [rotated]) (rule Suc.IH)
    then show ?thesis
      using frame_mono by blast
  next
    case False
    with Suc.prems have "w' = w"
      by (auto simp: Let_def NumField_def split: if_splits)
    then show ?thesis by (simp add: frame_refl)
  qed
qed

lemma initializeFields_frame':
  assumes "initializeFields n T p fs w = Some (res, w')"
  shows "frame p (Name ` set fs) w w'"
  using assms by (rule initializeFields_frame [rotated]) (rule initializeStruct_frame)

lemma initializeEmbeddedStruct_frame':
  assumes "initializeEmbeddedStruct n field r w = Some (res, w')"
  shows "frame (fst r) (ref_names r) w w'"
  using assms by (rule initializeEmbeddedStruct_frame [rotated]) (rule initializeStruct_frame)

lemma Init_frame: "Init n p w = Some (res, w') \<Longrightarrow> frame p UNIV w w'"
  by (auto simp: Init_def split: option.splits prod.splits outcome.splits
      dest: initializeStruct_frame)

text \<open>The invariant of the refresh closures.\<close>

lemma target_ok_frame: "frame p N w w' \<Longrightarrow> target_ok w si \<Longrightarrow> target_ok w' si"
  by (auto simp: frame_def target_ok_def split: prod.splits option.splits)

lemma types_ok_frame:
  assumes "frame p N w w'" and "types_ok w'"
  shows "types_ok w"
  unfolding types_ok_def
proof
  fix c assume "c \<in> set (heap w)"
  then obtain a where a: "a < length (heap w)" "c = heap w ! a"
    by (auto simp: in_set_conv_nth)
  with assms(1) have "ctype (heap w' ! a) = ctype c" "a < length (heap w')"
    by (auto simp: frame_def)
  with assms(2) show "go_struct (ctype c)"
    by (metis nth_mem types_ok_def)
qed

lemma inits_ok_frame:
  "frame p N w w' \<Longrightarrow> stringInitializers (mf w') = stringInitializers (mf w) \<Longrightarrow>
   inits_ok w \<Longrightarrow> inits_ok w'"
  by (auto simp: inits_ok_def intro: target_ok_frame)

lemma Value_SetString_mf: "Value_SetString r s w = (res, w') \<Longrightarrow> mf w' = mf w \<and> closures w' = closures w"
  by (auto simp: Value_SetString_def store_def split: option.splits if_splits)

lemma Value_Set_mf: "Value_Set r k v w = (res, w') \<Longrightarrow> mf w' = mf w \<and> closures w' = closures w"
  by (auto simp: Value_Set_def store_def split: option.splits if_splits)

lemma initializeField_inits_ok:
  assumes run: "initializeField T field (p, FieldByName T (Name field)) w = (res, w')"
    and p: "p < length (heap w)" "ctype (heap w ! p) = T"
    and field: "field \<in> set (type_Fields T)" and T: "go_struct T"
    and inv: "inits_ok w"
  shows "inits_ok w'"
proof (cases "type_Kind (Type field) = String")
  case True
  define r where "r = (p, FieldByName T (Name field))"
  show ?thesis
  proof (cases "Value_Interface r w")
    case (Panic e)
    with True run inv show ?thesis by (simp add: initializeField_def r_def)
  next
    case (Ok current)
    then have found: "FieldByName T (Name field) = Some field" and ex: "PkgPath field = []"
      using go_struct_found [OF T field]
      by (auto simp: Value_Interface_def r_def split: option.splits if_splits)
    define si where "si = \<lparr>si_messagePattern = Tag_Get (Tag field) defaultMessageTag,
      si_messageKey = type_Name T @ ''.'' @ Name field, si_instanceField = r\<rparr>"
    define w1 where "w1 = w\<lparr>mf := (mf w)\<lparr>stringInitializers := stringInitializers (mf w) @ [si]\<rparr>\<rparr>"
    from True Ok run obtain s where set: "Value_SetString r s w1 = (res, w')"
      by (auto simp: initializeField_def Let_def r_def si_def w1_def)
    have "target_ok w1 si"
      using p found ex True by (simp add: target_ok_def si_def r_def w1_def)
    moreover have "target_ok w1 x" if "x \<in> set (stringInitializers (mf w))" for x
      using inv that target_ok_frame [OF append_initializer_frame [of p "{}" w si]]
      by (auto simp: inits_ok_def w1_def)
    ultimately have "inits_ok w1"
      by (auto simp: inits_ok_def w1_def)
    with Value_SetString_frame [OF set] Value_SetString_mf [OF set] show ?thesis
      by (auto intro: inits_ok_frame)
  qed
next
  case False
  show ?thesis
  proof (cases "\<exists>R. NumOut (Type field) = Ok 1 \<and> Out (Type field) 0 = Ok R")
    case True
    then obtain R where "NumOut (Type field) = Ok 1" "Out (Type field) 0 = Ok R" by blast
    with False run obtain c h where
      set: "Value_Set (p, FieldByName T (Name field)) Func (RFunc h) (w\<lparr>closures := closures w @ [c]\<rparr>) = (res, w')"
      by (auto simp: initializeField_def Let_def messageHandler_def)
    have "inits_ok (w\<lparr>closures := closures w @ [c]\<rparr>)"
      using inits_ok_frame [OF append_closure_frame [of 0 "{}" w c]] inv by simp
    with Value_Set_frame [OF set] Value_Set_mf [OF set] show ?thesis
      by (auto intro: inits_ok_frame)
  next
    case F: False
    with False run have "w' = w"
      by (auto simp: initializeField_def Let_def split: outcome.splits if_splits)
    with inv show ?thesis by simp
  qed
qed

lemma initializeEmbeddedStruct_inits_ok:
  assumes IH: "\<And>p w res w'. initializeStruct n p w = Some (res, w') \<Longrightarrow> types_ok w' \<Longrightarrow>
      inits_ok w \<Longrightarrow> inits_ok w'"
    and run: "initializeEmbeddedStruct n field r w = Some (res, w')"
    and ty: "types_ok w'" and inv: "inits_ok w"
  shows "inits_ok w'"
proof (cases "Elem (Type field)")
  case (Panic e)
  with run inv show ?thesis by (simp add: initializeEmbeddedStruct.simps)
next
  case (Ok E)
  define w1 where "w1 = w\<lparr>heap := heap w @ [zero_cell E]\<rparr>"
  obtain res2 w2 where set: "Value_Set r Pointer (RPtr (length (heap w))) w1 = (res2, w2)"
    by (cases "Value_Set r Pointer (RPtr (length (heap w))) w1") auto
  have "inits_ok w1"
    using inits_ok_frame [OF alloc_frame [of 0 "{}" w "zero_cell E"]] inv by (simp add: w1_def)
  with Value_Set_frame [OF set] Value_Set_mf [OF set] have i2: "inits_ok w2"
    by (auto intro: inits_ok_frame)
  show ?thesis
  proof (cases res2)
    case (Panic e)
    with run Ok set have "w' = w2"
      by (simp add: Let_def w1_def initializeEmbeddedStruct.simps)
    with i2 show ?thesis by simp
  next
    case Ok2: (Ok u)
    with run Ok set have "initializeStruct n (length (heap w)) w2 = Some (res, w')"
      by (simp add: Let_def w1_def initializeEmbeddedStruct.simps)
    then show ?thesis using ty i2 by (rule IH)
  qed
qed

lemma initializeFields_inits_ok:
  assumes IH: "\<And>p w res w'. initializeStruct n p w = Some (res, w') \<Longrightarrow> types_ok w' \<Longrightarrow>
      inits_ok w \<Longrightarrow> inits_ok w'"
  shows "initializeFields n T p fs w = Some (res, w') \<Longrightarrow> types_ok w' \<Longrightarrow> inits_ok w \<Longrightarrow>
    p < length (heap w) \<Longrightarrow> ctype (heap w ! p) = T \<Longrightarrow> set fs \<subseteq> set (type_Fields T) \<Longrightarrow>
    inits_ok w'"
proof (induction fs arbitrary: w)
  case Nil
  then show ?case by simp
next
  case (Cons field rest)
  let ?r = "(p, FieldByName T (Name field))"
  obtain res1 w1 where
    step: "(if Anonymous field then initializeEmbeddedStruct n field ?r w
            else Some (initializeField T field ?r w)) = Some (res1, w1)"
    using Cons.prems(1) by (auto simp: Let_def split: option.splits)
  have f1: "frame p (ref_names ?r) w w1"
  proof (cases "Anonymous field")
    case True
    with step have "initializeEmbeddedStruct n field ?r w = Some (res1, w1)" by simp
    from initializeEmbeddedStruct_frame' [OF this] show ?thesis by simp
  next
    case False
    with step have "initializeField T field ?r w = (res1, w1)" by simp
    from initializeField_frame [OF this] show ?thesis by simp
  qed
  have rest: "res1 = Ok () \<Longrightarrow> initializeFields n T p rest w1 = Some (res, w')"
    and stop: "\<And>e. res1 = Panic e \<Longrightarrow> w' = w1"
    using Cons.prems(1) step by (auto simp: Let_def)
  have f2: "frame p (Name ` set rest) w1 w'"
  proof (cases res1)
    case (Ok u)
    with rest show ?thesis by (auto intro: initializeFields_frame')
  next
    case (Panic e)
    with stop show ?thesis by (simp add: frame_refl)
  qed
  have ty1: "types_ok w1" using types_ok_frame [OF f2 Cons.prems(2)] .
  have ty0: "types_ok w" using types_ok_frame [OF f1 ty1] .
  have T: "go_struct T"
    using ty0 Cons.prems(4,5) by (auto simp: types_ok_def dest: nth_mem)
  have i1: "inits_ok w1"
  proof (cases "Anonymous field")
    case True
    with step have "initializeEmbeddedStruct n field ?r w = Some (res1, w1)" by simp
    then show ?thesis
    proof (rule initializeEmbeddedStruct_inits_ok [rotated])
      show "types_ok w1" by (rule ty1)
      show "inits_ok w" by (rule Cons.prems(3))
    next
      fix q v res' v'
      assume "initializeStruct n q v = Some (res', v')" "types_ok v'" "inits_ok v"
      then show "inits_ok v'" by (rule IH)
    qed
  next
    case False
    with step have "initializeField T field (p, FieldByName T (Name field)) w = (res1, w1)"
      by simp
    from initializeField_inits_ok [OF this Cons.prems(4,5) _ T Cons.prems(3)] Cons.prems(6)
    show ?thesis by simp
  qed
  show ?case
  proof (cases res1)
    case (Panic e)
    with stop i1 show ?thesis by simp
  next
    case (Ok u)
    have "p < length (heap w1)" "ctype (heap w1 ! p) = T"
      using f1 Cons.prems(4,5) by (auto simp: frame_def)
    with Cons.IH [OF rest Cons.prems(2) i1] Ok Cons.prems(6) show ?thesis by simp
  qed
qed

lemma initializeStruct_inits_ok:
  "initializeStruct n p w = Some (res, w') \<Longrightarrow> types_ok w' \<Longrightarrow> inits_ok w \<Longrightarrow> inits_ok w'"
proof (induction n arbitrary: p w res w')
  case 0
  then show ?case by simp
next
  case (Suc n)
  show ?case
  proof (cases "p < length (heap w) \<and> type_Kind (ctype (heap w ! p)) = Struct")
    case True
    with Suc.prems have
      "initializeFields n (ctype (heap w ! p)) p (type_Fields (ctype (heap w ! p))) w = Some (res, w')"
      by (simp add: Let_def NumField_def)
    then show ?thesis
    proof (rule initializeFields_inits_ok [rotated])
      show "types_ok w'" by (rule Suc.prems(2))
      show "inits_ok w" by (rule Suc.prems(3))
      show "p < length (heap w)" using True by simp
      show "ctype (heap w ! p) = ctype (heap w ! p)" by simp
      show "set (type_Fields (ctype (heap w ! p))) \<subseteq> set (type_Fields (ctype (heap w ! p)))"
        by simp
    next
      fix q v res' v'
      assume "initializeStruct n q v = Some (res', v')" "types_ok v'" "inits_ok v"
      then show "inits_ok v'" by (rule Suc.IH)
    qed
  next
    case False
    with Suc.prems have "w' = w"
      by (auto simp: Let_def NumField_def split: if_splits)
    with Suc.prems show ?thesis by simp
  qed
qed

lemma Init_inits_ok:
  "Init n p w = Some (res, w') \<Longrightarrow> types_ok w' \<Longrightarrow> inits_ok w \<Longrightarrow> inits_ok w'"
  by (auto simp: Init_def split: option.splits prod.splits outcome.splits
      dest: initializeStruct_inits_ok)

lemma run_initializer_ok:
  assumes "target_ok w si" and "si_instanceField si = (a, Some f)"
  shows "run_initializer si w =
    (Ok (), store a (Name f) (RString (localized (dictionary (mf w)) (ctype (heap w ! a)) f)) w)"
  using assms
  by (auto simp: run_initializer_def target_ok_def Value_SetString_def localized_def
      split: option.splits)

lemma run_initializers_ok:
  assumes "\<forall>si \<in> set sis. target_ok w si"
  shows "\<exists>w'. run_initializers sis w = (Ok (), w') \<and> mf w' = mf w \<and> closures w' = closures w \<and>
    length (heap w') = length (heap w) \<and>
    (\<forall>a < length (heap w). ctype (heap w' ! a) = ctype (heap w ! a) \<and>
       (\<forall>name. cfields (heap w' ! a) name = refreshed sis w a name))"
  using assms
proof (induction sis arbitrary: w)
  case Nil
  then show ?case by (simp add: refreshed_def split: option.splits)
next
  case (Cons si rest)
  from Cons.prems have tsi: "target_ok w si" by simp
  then obtain a0 f0 where tgt: "si_instanceField si = (a0, Some f0)"
    by (auto simp: target_ok_def split: prod.splits option.splits)
  from tsi tgt have a0: "a0 < length (heap w)"
    and found0: "FieldByName (ctype (heap w ! a0)) (Name f0) = Some f0"
    by (simp_all add: target_ok_def)
  define v0 where "v0 = RString (localized (dictionary (mf w)) (ctype (heap w ! a0)) f0)"
  define w1 where "w1 = store a0 (Name f0) v0 w"
  have step: "run_initializer si w = (Ok (), w1)"
    using run_initializer_ok [OF tsi tgt] by (simp add: w1_def v0_def)
  have fr: "frame a0 {Name f0} w w1"
    unfolding w1_def by (rule store_frame [OF a0])
  have w1: "mf w1 = mf w" "closures w1 = closures w" "length (heap w1) = length (heap w)"
    by (simp_all add: w1_def store_def)
  have ty: "ctype (heap w1 ! a) = ctype (heap w ! a)" if "a < length (heap w)" for a
    using fr that by (simp add: frame_def)
  have cf: "cfields (heap w1 ! a) name =
      (if a = a0 \<and> name = Name f0 then v0 else cfields (heap w ! a) name)"
    if "a < length (heap w)" for a name
    using that a0 by (auto simp: w1_def store_def nth_list_update)
  have "\<forall>x \<in> set rest. target_ok w1 x"
    using Cons.prems target_ok_frame [OF fr] by simp
  from Cons.IH [OF this] obtain w' where
    run: "run_initializers rest w1 = (Ok (), w')" and
    mf': "mf w' = mf w1" "closures w' = closures w1" "length (heap w') = length (heap w1)" and
    cells: "\<And>a. a < length (heap w1) \<Longrightarrow> ctype (heap w' ! a) = ctype (heap w1 ! a) \<and>
       (\<forall>name. cfields (heap w' ! a) name = refreshed rest w1 a name)"
    by blast
  have "cfields (heap w' ! a) name = refreshed (si # rest) w a name"
    if a: "a < length (heap w)" for a name
  proof -
    have 1: "cfields (heap w' ! a) name = refreshed rest w1 a name"
      using cells a w1 by simp
    show ?thesis
    proof (cases "FieldByName (ctype (heap w ! a)) name")
      case None
      have "\<not> (a = a0 \<and> name = Name f0)"
      proof
        assume "a = a0 \<and> name = Name f0"
        then have "FieldByName (ctype (heap w ! a)) name = Some f0"
          using found0 by simp
        with None show False by (simp only: option.distinct)
      qed
      with None 1 show ?thesis
        by (simp add: refreshed_def ty [OF a] cf [OF a])
    next
      case (Some f)
      then have nf: "Name f = name" by (auto dest: FieldByName_Some)
      have eq: "(a = a0 \<and> name = Name f0) \<longleftrightarrow> f = f0 \<and> a = a0"
      proof
        assume h: "a = a0 \<and> name = Name f0"
        then have "FieldByName (ctype (heap w ! a)) name = Some f0"
          using found0 by simp
        with Some have "Some f = Some f0" by (simp only:)
        with h show "f = f0 \<and> a = a0" by simp
      next
        assume "f = f0 \<and> a = a0"
        with nf show "a = a0 \<and> name = Name f0" by simp
      qed
      have found1: "FieldByName (ctype (heap w1 ! a)) name = Some f"
        using Some ty [OF a] by simp
      have lhs: "cfields (heap w' ! a) name =
          (if (a, Some f) \<in> si_instanceField ` set rest
           then RString (localized (dictionary (mf w)) (ctype (heap w ! a)) f)
           else cfields (heap w1 ! a) name)"
        unfolding 1 refreshed_def found1 using ty [OF a] w1(1) by simp
      have rhs: "refreshed (si # rest) w a name =
          (if (a, Some f) \<in> si_instanceField ` set rest \<or> (f = f0 \<and> a = a0)
           then RString (localized (dictionary (mf w)) (ctype (heap w ! a)) f)
           else cfields (heap w ! a) name)"
        unfolding refreshed_def Some using tgt by auto
      show ?thesis
      proof (cases "(a, Some f) \<in> si_instanceField ` set rest")
        case True
        then show ?thesis unfolding lhs rhs by simp
      next
        case False
        show ?thesis
        proof (cases "f = f0 \<and> a = a0")
          case True
          then have "a = a0 \<and> name = Name f0" using eq by blast
          then have "cfields (heap w1 ! a) name = v0"
            using cf [OF a, of name] by simp
          with True False show ?thesis unfolding lhs rhs by (simp add: v0_def)
        next
          case F: False
          then have "\<not> (a = a0 \<and> name = Name f0)" using eq by blast
          then have "cfields (heap w1 ! a) name = cfields (heap w ! a) name"
            using cf [OF a, of name] by (cases "a = a0") simp_all
          with F False show ?thesis unfolding lhs rhs by auto
        qed
      qed
    qed
  qed
  moreover have "ctype (heap w' ! a) = ctype (heap w ! a)" if "a < length (heap w)" for a
    using cells [of a] that w1 ty by simp
  ultimately show ?case
    using step run mf' w1 by simp
qed

lemma target_ok_dictionary:
  "target_ok (w\<lparr>mf := (mf w)\<lparr>dictionary := d\<rparr>\<rparr>) si = target_ok w si"
  by (auto simp: target_ok_def split: prod.splits option.splits)

text \<open>
  \<open>LoadLocale\<close> of a registered locale whose loader gives a dictionary, in a world that
  keeps the invariant of the refresh closures.
\<close>

lemma LoadLocale_ok:
  assumes inv: "inits_ok w"
    and reg: "locales (mf w) t = Some li" "GetLoader ext (format li) = Some ld"
      "ld (path li) = Inr d"
  shows "\<exists>w'. LoadLocale ext t w = (Ok (), w') \<and> mf w' = (mf w)\<lparr>dictionary := d\<rparr> \<and>
    closures w' = closures w \<and> length (heap w') = length (heap w) \<and>
    (\<forall>a < length (heap w). ctype (heap w' ! a) = ctype (heap w ! a) \<and>
       (\<forall>name. cfields (heap w' ! a) name =
          refreshed (stringInitializers (mf w)) (w\<lparr>mf := (mf w)\<lparr>dictionary := d\<rparr>\<rparr>) a name))"
proof -
  let ?w0 = "w\<lparr>mf := (mf w)\<lparr>dictionary := d\<rparr>\<rparr>"
  have "\<forall>si \<in> set (stringInitializers (mf w)). target_ok ?w0 si"
    using inv by (simp add: inits_ok_def target_ok_dictionary)
  from run_initializers_ok [OF this] reg show ?thesis
    by (simp add: LoadLocale_def)
qed

lemma LoadLocale_cases:
  assumes "LoadLocale ext t w = (res, w')"
  obtains (panic) e where "res = Panic e" "w' = w"
  | (load) li ld d where "locales (mf w) t = Some li" "GetLoader ext (format li) = Some ld"
      "ld (path li) = Inr d"
  using assms by (auto simp: LoadLocale_def split: option.splits sum.splits)

lemma LoadLocale_other_fields:
  assumes inv: "inits_ok w" and run: "LoadLocale ext t w = (res, w')"
    and a: "a < length (heap w)"
    and f: "FieldByName (ctype (heap w ! a)) name = Some f" "type_Kind (Type f) \<noteq> String"
  shows "field_value w' a name = field_value w a name"
  using run
proof (cases rule: LoadLocale_cases)
  case (panic e)
  then show ?thesis by simp
next
  case (load li ld d)
  from LoadLocale_ok [OF inv load] run a
  have v: "cfields (heap w' ! a) name =
      refreshed (stringInitializers (mf w)) (w\<lparr>mf := (mf w)\<lparr>dictionary := d\<rparr>\<rparr>) a name"
    by auto
  have "(a, Some f) \<notin> si_instanceField ` set (stringInitializers (mf w))"
  proof
    assume "(a, Some f) \<in> si_instanceField ` set (stringInitializers (mf w))"
    then obtain si where "si \<in> set (stringInitializers (mf w))" "si_instanceField si = (a, Some f)"
      by auto
    with inv have "type_Kind (Type f) = String"
      by (auto simp: inits_ok_def target_ok_def)
    with f(2) show False by simp
  qed
  with v f(1) show ?thesis
    by (simp add: refreshed_def field_value_def)
qed

lemma LoadLocale_closures:
  assumes inv: "inits_ok w" and run: "LoadLocale ext t w = (res, w')"
  shows "closures w' = closures w"
  using run
proof (cases rule: LoadLocale_cases)
  case (panic e)
  then show ?thesis by simp
next
  case (load li ld d)
  from LoadLocale_ok [OF inv load] run show ?thesis by auto
qed

lemma LoadLocale_string_field:
  assumes inv: "inits_ok w" and si: "si \<in> set (stringInitializers (mf w))"
    and tgt: "si_instanceField si = (a, Some f)"
    and reg: "locales (mf w) t = Some li" "GetLoader ext (format li) = Some ld"
      "ld (path li) = Inr d"
  shows "\<exists>w'. LoadLocale ext t w = (Ok (), w') \<and> dictionary (mf w') = d \<and>
    field_value w' a (Name f) = RString (localized d (ctype (heap w ! a)) f)"
proof -
  have ok: "target_ok w si" using inv si by (simp add: inits_ok_def)
  with tgt have a: "a < length (heap w)"
    and found: "FieldByName (ctype (heap w ! a)) (Name f) = Some f"
    by (simp_all add: target_ok_def)
  have "(a, Some f) \<in> si_instanceField ` set (stringInitializers (mf w))"
    using si tgt by force
  with LoadLocale_ok [OF inv reg] a found show ?thesis
    by (auto simp: refreshed_def field_value_def)
qed

lemma greeter_locales_facts:
  "inits_ok greeter_locales"
  "heap greeter_locales = heap greeter_world"
  "closures greeter_locales = closures greeter_world"
  "stringInitializers (mf greeter_locales) = [initializer_of Greeter_t 0 Title_f]"
  "locales (mf greeter_locales) ''fr'' = Some \<lparr>format = ''yaml'', path = ''fr.yaml''\<rparr>"
  "locales (mf greeter_locales) ''en'' = Some \<lparr>format = ''yaml'', path = ''en.yaml''\<rparr>"
  "dictionary (mf greeter_locales) = Map.empty"
  by (simp_all add: greeter_locales_def greeter_world_def SetLocale_def inits_ok_def
      target_ok_def initializer_of_def example_defs)

lemmas page_defs = Footer_f_def Cheer_f_def Page_t_def

lemma Init_Page: "Init (Suc 0) 0 (world_of Page_t) = Some (Ok 0, page_world)"
  by (simp add: page_world_def page_defs example_defs run_defs)

lemma page_locales_facts:
  "inits_ok page_locales"
  "heap page_locales = heap page_world"
  "closures page_locales = closures page_world"
  "stringInitializers (mf page_locales) = [initializer_of Page_t 0 Footer_f]"
  "locales (mf page_locales) ''fr'' = Some \<lparr>format = ''yaml'', path = ''fr.yaml''\<rparr>"
  "locales (mf page_locales) ''en'' = Some \<lparr>format = ''yaml'', path = ''en.yaml''\<rparr>"
  "dictionary (mf page_locales) = Map.empty"
  by (simp_all add: page_locales_def page_world_def SetLocale_def inits_ok_def
      target_ok_def initializer_of_def page_defs example_defs)

text \<open>The invariant of the refresh closures is kept by every operation.\<close>

lemma New_inits_ok: "inits_ok \<lparr>mf = New, heap = hp, closures = cs\<rparr>"
  by (simp add: inits_ok_def New_def)

lemma SetLocale_inits_ok: "inits_ok w \<Longrightarrow> inits_ok (SetLocale t fmt pth w)"
  by (auto simp: inits_ok_def SetLocale_def target_ok_def split: prod.splits option.splits)

lemma alloc_inits_ok: "inits_ok w \<Longrightarrow> inits_ok (w\<lparr>heap := heap w @ [c]\<rparr>)"
  using inits_ok_frame [OF alloc_frame [of 0 "{}" w c]] by simp

lemma store_inits_ok: "inits_ok w \<Longrightarrow> a < length (heap w) \<Longrightarrow> inits_ok (store a name v w)"
  using inits_ok_frame [OF store_frame [of a w name v]] by (simp add: store_def)

lemma LoadLocale_inits_ok:
  assumes inv: "inits_ok w" and run: "LoadLocale ext t w = (res, w')"
  shows "inits_ok w'"
  using run
proof (cases rule: LoadLocale_cases)
  case (panic e)
  with inv show ?thesis by simp
next
  case (load li ld d)
  from LoadLocale_ok [OF inv load] run
  have "mf w' = (mf w)\<lparr>dictionary := d\<rparr>" "length (heap w') = length (heap w)"
    "\<And>a. a < length (heap w) \<Longrightarrow> ctype (heap w' ! a) = ctype (heap w ! a)"
    by auto
  with inv show ?thesis
    by (auto simp: inits_ok_def target_ok_def split: prod.splits option.splits)
qed

lemma handler_call_frame:
  assumes "handler_call ext h args w = (res, w')"
  shows "heap w' = heap w \<and> mf w' = mf w \<and> length (closures w') = length (closures w) \<and>
    (\<forall>k < length (closures w). h_messageKey (closures w' ! k) = h_messageKey (closures w ! k) \<and>
       h_resultType (closures w' ! k) = h_resultType (closures w ! k))"
  using assms
  by (auto simp: handler_call_def Let_def nth_list_update
      split: if_splits option.splits outcome.splits)

text \<open>A call leaves the pattern it resolved in the captured variable of its closure.\<close>

lemma handler_call_assigns_pattern:
  "h < length (closures w) \<Longrightarrow>
   h_messagePattern (closures (snd (handler_call ext h args w)) ! h) = active_pattern w h"
  by (auto simp: handler_call_def active_pattern_def Let_def
      split: option.splits outcome.splits)

lemma handler_call_inits_ok:
  "inits_ok w \<Longrightarrow> handler_call ext h args w = (res, w') \<Longrightarrow> inits_ok w'"
  using handler_call_frame [of ext h args w res w']
  by (auto simp: inits_ok_def target_ok_def split: prod.splits option.splits)

lemma handler_call_result:
  assumes "h < length (closures w)"
  shows "fst (handler_call ext h args w) =
    (let R = h_resultType (closures w ! h);
         message = Sprintf ext (active_pattern w h) (map formatParam args)
     in case resultFormatter_of (R, zero_raw (type_Kind R)) of
          Some resultFormatter \<Rightarrow>
            (case Convert_string (resultFormatter message) R of
               Panic e \<Rightarrow> Panic e
             | Ok v \<Rightarrow> Ok [v])
        | None \<Rightarrow>
            if assignable_from_string R then Ok [(R, RString message)]
            else Panic (ReflectPanic ''reflect.Set: value of type string is not assignable to type''))"
  using assms
  by (auto simp: handler_call_def active_pattern_def Let_def
      split: option.splits outcome.splits)

lemma handler_call_message_result:
  "h < length (closures w) \<Longrightarrow>
   fst (handler_call ext h args w) =
     message_result (h_resultType (closures w ! h))
       (Sprintf ext (active_pattern w h) (map formatParam args))"
  by (simp add: handler_call_result message_result_def Let_def)

lemma initializeField_string_value:
  assumes "type_Kind (Type f) = String"
    and "initializeField T f (p, Some f) w = (Ok (), w')"
  shows "field_value w' p (Name f) =
      RString (case G11nResult (Type f) of
                 Some m \<Rightarrow> m (field_value w p (Name f)) (Tag_Get (Tag f) defaultMessageTag)
               | None \<Rightarrow> Tag_Get (Tag f) defaultMessageTag) \<and>
    stringInitializers (mf w') = stringInitializers (mf w) @ [initializer_of T p f]"
  using assms
  by (auto simp: initializeField_def Value_Interface_def Value_SetString_def Let_def
      resultFormatter_of_def store_def field_value_def initializer_of_def
      split: if_splits option.splits)

lemma initializeFields_Cons:
  "initializeFields n T p (field # rest) w =
     (case loop_body n T p field w of
        None \<Rightarrow> None
      | Some (Panic e, w') \<Rightarrow> Some (Panic e, w')
      | Some (Ok u, w') \<Rightarrow> initializeFields n T p rest w')"
  by (simp add: loop_body_def Let_def)

lemma loop_body_frame:
  assumes "loop_body n T p field w = Some (res, w')"
  shows "frame p {Name field} w w'"
proof -
  let ?r = "(p, FieldByName T (Name field))"
  have names: "ref_names ?r \<subseteq> {Name field}"
    by (auto simp: ref_names_def split: option.splits dest: FieldByName_Some)
  have "frame (fst ?r) (ref_names ?r) w w'"
  proof (cases "Anonymous field")
    case True
    with assms have "initializeEmbeddedStruct n field ?r w = Some (res, w')"
      by (simp add: loop_body_def)
    then show ?thesis by (rule initializeEmbeddedStruct_frame')
  next
    case False
    with assms have "initializeField T field ?r w = (res, w')"
      by (simp add: loop_body_def)
    then show ?thesis by (rule initializeField_frame)
  qed
  then show ?thesis
    using names frame_mono by fastforce
qed

text \<open>A field that is initialized is exported, and is the field its name finds.\<close>

lemma Value_Set_Ok:
  "Value_Set r k v w = (Ok u, w') \<Longrightarrow>
   \<exists>f. snd r = Some f \<and> fst r < length (heap w) \<and> PkgPath f = [] \<and> type_Kind (Type f) = k \<and>
       w' = store (fst r) (Name f) v w"
  by (auto simp: Value_Set_def split: option.splits if_splits)

lemma initializeField_Ok_found:
  assumes "initializeField T field (p, found) w = (Ok u, w')"
  shows "\<exists>f. found = Some f \<and> PkgPath f = [] \<and> p < length (heap w)"
proof (cases "type_Kind (Type field) = String")
  case True
  with assms have "\<exists>c. Value_Interface (p, found) w = Ok c"
    by (cases "Value_Interface (p, found) w") (auto simp: initializeField_def)
  then show ?thesis
    by (auto simp: Value_Interface_def split: option.splits if_splits)
next
  case False
  with assms obtain k v w1 where "Value_Set (p, found) k v w1 = (Ok u, w')" "heap w1 = heap w"
    by (auto simp: initializeField_def Let_def messageHandler_def
        split: outcome.splits if_splits)
  from Value_Set_Ok [OF this(1)] this(2) show ?thesis by auto
qed

lemma initializeEmbeddedStruct_Ok_found:
  assumes "initializeEmbeddedStruct n field (p, found) w = Some (Ok u, w')"
  shows "\<exists>f. found = Some f \<and> PkgPath f = [] \<and> type_Kind (Type f) = Pointer"
proof -
  from assms obtain E where "Elem (Type field) = Ok E"
    by (auto simp: initializeEmbeddedStruct.simps split: outcome.splits)
  with assms obtain u2 w2 where
    "Value_Set (p, found) Pointer (RPtr (length (heap w))) (w\<lparr>heap := heap w @ [zero_cell E]\<rparr>) = (Ok u2, w2)"
    by (auto simp: initializeEmbeddedStruct.simps Let_def split: prod.splits outcome.splits)
  from Value_Set_Ok [OF this] show ?thesis by auto
qed

lemma loop_body_Ok_found:
  assumes "loop_body n T p field w = Some (Ok u, w')"
    and "field \<in> set (type_Fields T)" and "go_struct T"
  shows "FieldByName T (Name field) = Some field \<and> PkgPath field = []"
proof -
  have "\<exists>f. FieldByName T (Name field) = Some f \<and> PkgPath f = []"
  proof (cases "Anonymous field")
    case True
    with assms(1) initializeEmbeddedStruct_Ok_found [of n field p "FieldByName T (Name field)" w u w']
    show ?thesis by (auto simp: loop_body_def)
  next
    case False
    with assms(1) initializeField_Ok_found [of T field p "FieldByName T (Name field)" w u w']
    show ?thesis by (auto simp: loop_body_def)
  qed
  then obtain f where f: "FieldByName T (Name field) = Some f" "PkgPath f = []" by blast
  from go_struct_found [OF assms(3,2) f] have "f = field" .
  with f show ?thesis by simp
qed

lemma name_not_in_rest:
  assumes "go_struct T" and "FieldByName T (Name f) = Some f" and "PkgPath f = []"
    and "set gs \<subseteq> set (type_Fields T)" and "f \<notin> set gs"
  shows "Name f \<notin> Name ` set gs"
proof
  assume "Name f \<in> Name ` set gs"
  then obtain g where g: "g \<in> set gs" "Name g = Name f" by auto
  with assms(4) have m: "g \<in> set (type_Fields T)" by auto
  have "FieldByName T (Name g) = Some f" using assms(2) g(2) by simp
  from go_struct_found [OF assms(1) m this assms(3)] have "f = g" .
  with g(1) assms(5) show False by simp
qed

text \<open>
  What the initialization of one field establishes holds when the loop is over, if the
  initialization of the other fields keeps it.
\<close>

lemma initializeFields_field_post:
  assumes run: "initializeFields n T p fs w = Some (Ok (), w')"
    and ctx: "p < length (heap w)" "ctype (heap w ! p) = T" "go_struct T"
      "set fs \<subseteq> set (type_Fields T)"
    and f: "f \<in> set fs"
    and step: "\<And>v v1. frame p (Name ` set fs) w v \<Longrightarrow> loop_body n T p f v = Some (Ok (), v1) \<Longrightarrow> Q v1"
    and stable: "\<And>v1 v2. Q v1 \<Longrightarrow> frame p (Name ` set fs - {Name f}) v1 v2 \<Longrightarrow> Q v2"
  shows "Q w'"
  using run ctx(1,2,4) f step stable
proof (induction fs arbitrary: w)
  case Nil
  then show ?case by simp
next
  case (Cons g gs)
  from Cons.prems(1) obtain w1 where
    body: "loop_body n T p g w = Some (Ok (), w1)" and
    rest: "initializeFields n T p gs w1 = Some (Ok (), w')"
    unfolding initializeFields_Cons
    by (auto split: option.splits prod.splits outcome.splits)
  have f1: "frame p {Name g} w w1" using body by (rule loop_body_frame)
  have f2: "frame p (Name ` set gs) w1 w'" using rest by (rule initializeFields_frame')
  have p1: "p < length (heap w1)" "ctype (heap w1 ! p) = T"
    using f1 Cons.prems(2,3) by (auto simp: frame_def)
  show ?case
  proof (cases "f \<in> set gs")
    case True
    show ?thesis
    proof (rule Cons.IH [OF rest p1 _ True])
      show "set gs \<subseteq> set (type_Fields T)" using Cons.prems(4) by simp
    next
      fix v v1
      assume fr: "frame p (Name ` set gs) w1 v" and b: "loop_body n T p f v = Some (Ok (), v1)"
      have "frame p (Name ` set (g # gs)) w w1"
        by (rule frame_mono [OF f1]) simp
      then have "frame p (Name ` set (g # gs)) w v"
        by (rule frame_trans [OF _ fr]) auto
      then show "Q v1" using b by (rule Cons.prems(6))
    next
      fix v1 v2
      assume q: "Q v1" and fr: "frame p (Name ` set gs - {Name f}) v1 v2"
      have "frame p (Name ` set (g # gs) - {Name f}) v1 v2"
        by (rule frame_mono [OF fr]) auto
      with q show "Q v2" by (rule Cons.prems(7))
    qed
  next
    case False
    with Cons.prems(5) have fg: "f = g" by simp
    have "Q w1"
      using body by (intro Cons.prems(6) [of w w1]) (simp_all add: frame_refl fg)
    moreover have "Name f \<notin> Name ` set gs"
    proof (rule name_not_in_rest [OF ctx(3)])
      show "FieldByName T (Name f) = Some f" "PkgPath f = []"
        using loop_body_Ok_found [OF body _ ctx(3)] Cons.prems(4) fg by auto
      show "set gs \<subseteq> set (type_Fields T)" using Cons.prems(4) by simp
      show "f \<notin> set gs" by (rule False)
    qed
    then have "Name ` set gs \<subseteq> Name ` set (g # gs) - {Name f}"
    proof -
      assume nf: "Name f \<notin> Name ` set gs"
      show ?thesis
      proof
        fix x assume x: "x \<in> Name ` set gs"
        with nf have "x \<noteq> Name f" by metis
        with x show "x \<in> Name ` set (g # gs) - {Name f}" by simp
      qed
    qed
    then have "frame p (Name ` set (g # gs) - {Name f}) w1 w'"
      by (rule frame_mono [OF f2])
    ultimately show ?thesis by (rule Cons.prems(7))
  qed
qed

lemma hooked_String:
  "type_Kind R = String \<Longrightarrow>
   hooked R recv P = (case G11nResult R of Some m \<Rightarrow> m recv P | None \<Rightarrow> P)"
  by (simp add: hooked_def resultFormatter_of_def split: option.splits)

lemma frame_field_value:
  "frame p N w w' \<Longrightarrow> a < length (heap w) \<Longrightarrow> a \<noteq> p \<or> name \<notin> N \<Longrightarrow>
   field_value w' a name = field_value w a name"
  by (auto simp: frame_def field_value_def)

lemma frame_length: "frame p N w w' \<Longrightarrow> a < length (heap w) \<Longrightarrow> a < length (heap w')"
  by (simp add: frame_def)

lemma frame_ctype: "frame p N w w' \<Longrightarrow> a < length (heap w) \<Longrightarrow> ctype (heap w' ! a) = ctype (heap w ! a)"
  by (simp add: frame_def)

lemma frame_initializers:
  assumes "frame p N w w'"
  shows "set (drop k (stringInitializers (mf w))) \<subseteq> set (drop k (stringInitializers (mf w')))"
proof -
  from assms obtain zs where "stringInitializers (mf w') = stringInitializers (mf w) @ zs"
    by (auto simp: frame_def prefix_def)
  then show ?thesis by auto
qed

lemma frame_initializers_length:
  "frame p N w w' \<Longrightarrow> length (stringInitializers (mf w)) \<le> length (stringInitializers (mf w'))"
  by (auto simp: frame_def prefix_def)



lemma string_wired_frame:
  assumes "string_wired w a T f" and "frame p N w w'" and "a < length (heap w)"
    and "a \<noteq> p \<or> Name f \<notin> N"
  shows "string_wired w' a T f"
proof -
  have "field_value w' a (Name f) = field_value w a (Name f)"
    using frame_field_value [OF assms(2,3,4)] .
  moreover have "set (stringInitializers (mf w)) \<subseteq> set (stringInitializers (mf w'))"
    using frame_initializers [OF assms(2), of 0] by simp
  ultimately show ?thesis
    using assms(1) by (auto simp: string_wired_def)
qed


text \<open>
  After the loop over the fields has returned normally, every string field and every
  function field of the struct is as \<open>initializeField\<close> leaves it.
\<close>

lemma initializeFields_string_field:
  assumes run: "initializeFields n T p fs w = Some (Ok (), w')"
    and ctx: "p < length (heap w)" "ctype (heap w ! p) = T" "go_struct T"
      "set fs \<subseteq> set (type_Fields T)"
    and f: "f \<in> set fs" "\<not> Anonymous f" "type_Kind (Type f) = String"
  shows "string_wired w' p T f \<and> PkgPath f = [] \<and>
    initializer_of T p f \<in> set (drop (length (stringInitializers (mf w))) (stringInitializers (mf w')))"
proof -
  let ?k = "length (stringInitializers (mf w))"
  let ?Q = "\<lambda>v. p < length (heap v) \<and> string_wired v p T f \<and> PkgPath f = [] \<and>
    initializer_of T p f \<in> set (drop ?k (stringInitializers (mf v)))"
  have "?Q w'"
  proof (rule initializeFields_field_post [OF run ctx f(1), where Q = ?Q])
    fix v v1
    assume fr: "frame p (Name ` set fs) w v" and body: "loop_body n T p f v = Some (Ok (), v1)"
    have ff: "f \<in> set (type_Fields T)" using ctx(4) f(1) by auto
    from loop_body_Ok_found [OF body ff ctx(3)]
    have found: "FieldByName T (Name f) = Some f" and ex: "PkgPath f = []" by simp_all
    with body f(2) have init: "initializeField T f (p, Some f) v = (Ok (), v1)"
      by (simp add: loop_body_def)
    from initializeField_string_value [OF f(3) init]
    have val: "field_value v1 p (Name f) =
        RString (hooked (Type f) (field_value v p (Name f)) (Tag_Get (Tag f) defaultMessageTag))"
      and inits: "stringInitializers (mf v1) = stringInitializers (mf v) @ [initializer_of T p f]"
      by (simp_all add: hooked_String [OF f(3)])
    have "?k \<le> length (stringInitializers (mf v))"
      using fr by (rule frame_initializers_length)
    then have "initializer_of T p f \<in> set (drop ?k (stringInitializers (mf v1)))"
      by (simp add: inits)
    moreover have "p < length (heap v1)"
      using initializeField_Ok_found [OF init] frame_length [OF initializeField_frame [OF init]]
      by auto
    moreover have "initializer_of T p f \<in> set (stringInitializers (mf v1))"
      by (simp add: inits)
    ultimately show "?Q v1" using val ex by (auto simp: string_wired_def)
  next
    fix v1 v2
    assume q: "?Q v1" and fr: "frame p (Name ` set fs - {Name f}) v1 v2"
    have "string_wired v2 p T f"
      by (rule string_wired_frame [OF _ fr]) (use q in auto)
    moreover have "p < length (heap v2)" using q frame_length [OF fr] by simp
    moreover have "initializer_of T p f \<in> set (drop ?k (stringInitializers (mf v2)))"
      using q frame_initializers [OF fr, of ?k] by auto
    ultimately show "?Q v2" using q by simp
  qed
  then show ?thesis by simp
qed


lemma initializable_go_struct: "initializable n T \<Longrightarrow> go_struct T"
  by (cases n) (auto simp: go_struct_def)

lemma initializeField_total:
  assumes "FieldByName T (Name f) = Some f" and "PkgPath f = []" and "p < length (heap w)"
    and "type_Kind (Type f) = String \<or> type_Kind (Type f) = Func \<and> length (type_Out (Type f)) = 1"
  shows "\<exists>w'. initializeField T f (p, FieldByName T (Name f)) w = (Ok (), w')"
  using assms
  by (auto simp: initializeField_def Value_Interface_def Value_SetString_def Value_Set_def
      NumOut_def Out_def messageHandler_def Let_def)

lemma initializeEmbeddedStruct_total:
  assumes IH: "\<And>a v. a < length (heap v) \<Longrightarrow> ctype (heap v ! a) = E \<Longrightarrow>
      \<exists>v'. initializeStruct n a v = Some (Ok (), v')"
    and f: "FieldByName T (Name f) = Some f" "PkgPath f = []" "type_Kind (Type f) = Pointer"
      "type_Elem (Type f) = Some E"
    and p: "p < length (heap w)"
  shows "\<exists>w'. initializeEmbeddedStruct n f (p, FieldByName T (Name f)) w = Some (Ok (), w')"
proof -
  let ?a = "length (heap w)"
  let ?w1 = "w\<lparr>heap := heap w @ [zero_cell E]\<rparr>"
  let ?w2 = "store p (Name f) (RPtr ?a) ?w1"
  have e: "Elem (Type f) = Ok E" using f(3,4) by (simp add: Elem_def)
  have s: "Value_Set (p, Some f) Pointer (RPtr ?a) ?w1 = (Ok (), ?w2)"
    using f(2,3) p by (simp add: Value_Set_def)
  have "?a < length (heap ?w2)" "ctype (heap ?w2 ! ?a) = E"
    using p by (simp_all add: store_def nth_list_update nth_append zero_cell_def)
  from IH [OF this] obtain w' where "initializeStruct n ?a ?w2 = Some (Ok (), w')" by blast
  with e s f(1) show ?thesis
    by (simp add: initializeEmbeddedStruct.simps Let_def)
qed

lemma initializeFields_total:
  assumes IH: "\<And>E a v. initializable n E \<Longrightarrow> a < length (heap v) \<Longrightarrow> ctype (heap v ! a) = E \<Longrightarrow>
      \<exists>v'. initializeStruct n a v = Some (Ok (), v')"
    and T: "initializable (Suc n) T"
  shows "set fs \<subseteq> set (type_Fields T) \<Longrightarrow> p < length (heap w) \<Longrightarrow>
    \<exists>w'. initializeFields n T p fs w = Some (Ok (), w')"
proof (induction fs arbitrary: w)
  case Nil
  then show ?case by simp
next
  case (Cons g gs)
  from Cons.prems(1) T have g: "FieldByName T (Name g) = Some g" "PkgPath g = []"
    by auto
  have "\<exists>w1. loop_body n T p g w = Some (Ok (), w1)"
  proof (cases "Anonymous g")
    case True
    with Cons.prems(1) T obtain E where
      E: "type_Kind (Type g) = Pointer" "type_Elem (Type g) = Some E" "initializable n E"
      by (auto split: option.splits)
    have "\<exists>w'. initializeEmbeddedStruct n g (p, FieldByName T (Name g)) w = Some (Ok (), w')"
    proof (rule initializeEmbeddedStruct_total [OF _ g E(1,2) Cons.prems(2)])
      fix a and v :: world assume "a < length (heap v)" "ctype (heap v ! a) = E"
      with E(3) show "\<exists>v'. initializeStruct n a v = Some (Ok (), v')" by (rule IH)
    qed
    with True show ?thesis by (simp add: loop_body_def)
  next
    case False
    with Cons.prems(1) T have
      "type_Kind (Type g) = String \<or> type_Kind (Type g) = Func \<and> length (type_Out (Type g)) = 1"
      by auto
    from initializeField_total [OF g Cons.prems(2) this] False show ?thesis
      by (simp add: loop_body_def)
  qed
  then obtain w1 where body: "loop_body n T p g w = Some (Ok (), w1)" by blast
  have "p < length (heap w1)"
    using frame_length [OF loop_body_frame [OF body] Cons.prems(2)] .
  with Cons.IH [of w1] Cons.prems(1) obtain w' where
    "initializeFields n T p gs w1 = Some (Ok (), w')" by auto
  with body show ?case unfolding initializeFields_Cons by simp
qed

text \<open>\<open>Init\<close> returns normally on a record of a type it is made for, given the fuel of its depth.\<close>

lemma initializeStruct_total:
  "initializable n T \<Longrightarrow> p < length (heap w) \<Longrightarrow> ctype (heap w ! p) = T \<Longrightarrow>
   \<exists>w'. initializeStruct n p w = Some (Ok (), w')"
proof (induction n arbitrary: T p w)
  case 0
  then show ?case by simp
next
  case (Suc n)
  have "\<exists>w'. initializeFields n T p (type_Fields T) w = Some (Ok (), w')"
  proof (rule initializeFields_total [OF _ Suc.prems(1) _ Suc.prems(2)])
    fix E a and v :: world
    assume "initializable n E" "a < length (heap v)" "ctype (heap v ! a) = E"
    then show "\<exists>v'. initializeStruct n a v = Some (Ok (), v')" by (rule Suc.IH)
  qed simp
  with Suc.prems show ?case
    by (simp add: NumField_def Let_def)
qed

lemma Init_total:
  "initializable n T \<Longrightarrow> p < length (heap w) \<Longrightarrow> ctype (heap w ! p) = T \<Longrightarrow>
   \<exists>w'. Init n p w = Some (Ok p, w')"
  using initializeStruct_total [of n T p w] by (auto simp: Init_def)

lemma Init_Ok_fields:
  assumes "Init n p w = Some (Ok q, w')"
  shows "\<exists>m. n = Suc m \<and> p < length (heap w) \<and> type_Kind (ctype (heap w ! p)) = Struct \<and>
    initializeFields m (ctype (heap w ! p)) p (type_Fields (ctype (heap w ! p))) w = Some (Ok (), w')"
proof (cases n)
  case 0
  with assms show ?thesis by (simp add: Init_def)
next
  case (Suc m)
  with assms show ?thesis
    by (auto simp: Init_def NumField_def Let_def
        split: option.splits prod.splits outcome.splits if_splits)
qed







lemma initializeField_other_inits:
  "type_Kind (Type f) \<noteq> String \<Longrightarrow>
   stringInitializers (mf (snd (initializeField T f r w))) = stringInitializers (mf w)"
  by (auto simp: initializeField_def Let_def messageHandler_def Value_Set_def store_def
      split: outcome.splits option.splits)

text \<open>
  The refresh closures the loop appends on a record without embedded fields: one for
  each string field, in the order of the fields.
\<close>

lemma initializeFields_inits_exact:
  assumes T: "go_struct T"
  shows "initializeFields n T p fs w = Some (Ok (), w') \<Longrightarrow> set fs \<subseteq> set (type_Fields T) \<Longrightarrow>
    \<forall>f \<in> set fs. \<not> Anonymous f \<Longrightarrow>
    stringInitializers (mf w') = stringInitializers (mf w) @
      map (initializer_of T p) (filter (\<lambda>f. type_Kind (Type f) = String) fs)"
proof (induction fs arbitrary: w)
  case Nil
  then show ?case by simp
next
  case (Cons g gs)
  from Cons.prems(1) obtain w1 where
    body: "loop_body n T p g w = Some (Ok (), w1)" and
    rest: "initializeFields n T p gs w1 = Some (Ok (), w')"
    unfolding initializeFields_Cons
    by (auto split: option.splits prod.splits outcome.splits)
  have gT: "g \<in> set (type_Fields T)" and ng: "\<not> Anonymous g"
    using Cons.prems(2,3) by auto
  from loop_body_Ok_found [OF body gT T] have found: "FieldByName T (Name g) = Some g" by simp
  with body ng have init: "initializeField T g (p, Some g) w = (Ok (), w1)"
    by (simp add: loop_body_def)
  have 1: "stringInitializers (mf w1) = stringInitializers (mf w) @
      map (initializer_of T p) (filter (\<lambda>f. type_Kind (Type f) = String) [g])"
  proof (cases "type_Kind (Type g) = String")
    case True
    from initializeField_string_value [OF True init] True show ?thesis by simp
  next
    case False
    from initializeField_other_inits [OF False, of T "(p, Some g)" w] init False
    show ?thesis by simp
  qed
  have "stringInitializers (mf w') = stringInitializers (mf w1) @
      map (initializer_of T p) (filter (\<lambda>f. type_Kind (Type f) = String) gs)"
    using Cons.IH [OF rest] Cons.prems(2,3) by simp
  with 1 show ?case by simp
qed

lemma initializable_Page: "initializable (Suc 0) Page_t"
  by (simp add: page_defs example_defs)

section \<open>The claims\<close>

text \<open>
  C1. The closure of a function field does not keep the default pattern: a call made
  while the key is in the dictionary assigns the dictionary's pattern to the captured
  variable, and a later call made while the key is absent formats with that pattern.
  Here \<open>Hello\<close> has the default \<open>Hello, %v!\<close>; it is called under the locale
  \<open>fr\<close>, then under \<open>en\<close>, whose dictionary has no entry for it.
\<close>

theorem handler_keeps_last_pattern:
  "\<exists>w0 w1 w2 w3 w4.
     Init (Suc 0) 0 (SetLocale ''fr'' ''yaml'' ''fr.yaml''
       (SetLocale ''en'' ''yaml'' ''en.yaml'' (world_of Greeter_t))) = Some (Ok 0, w0) \<and>
     LoadLocale demo_ext ''fr'' w0 = (Ok (), w1) \<and>
     call_field demo_ext 0 ''Hello'' [(string_t, RString ''Sam'')] w1 =
       (Ok [(string_t, RString ''Bonjour, Sam!'')], w2) \<and>
     LoadLocale demo_ext ''en'' w2 = (Ok (), w3) \<and>
     dictionary (mf w3) ''Greeter.Hello'' = None \<and>
     call_field demo_ext 0 ''Hello'' [(string_t, RString ''Sam'')] w3 =
       (Ok [(string_t, RString ''Bonjour, Sam!'')], w4)"
  by (simp add: example_defs run_defs call_field_def MakeFunc_args_def handler_call_def
      formatParam_def assignable_from_string_def)

text \<open>
  C2. A string field the factory has initialized (the factory holds the refresh closure
  made for it) shows, after \<open>LoadLocale\<close> of a registered locale whose loader gives a
  dictionary, the dictionary's entry for its key when there is one, and the default
  pattern of its tag when there is none. \<open>LoadLocale\<close> returns normally there. The
  factory is in a state \<open>Init\<close> leaves it in (\<open>inits_ok\<close>, kept by \<open>Init\<close>,
  \<open>LoadLocale\<close> and the calls of message functions).
\<close>

theorem string_field_after_LoadLocale:
  assumes "inits_ok w"
    and "initializer_of (ctype (heap w ! a)) a f \<in> set (stringInitializers (mf w))"
    and "locales (mf w) t = Some li" and "GetLoader ext (format li) = Some ld"
    and "ld (path li) = Inr d"
  shows "\<exists>w'. LoadLocale ext t w = (Ok (), w') \<and> dictionary (mf w') = d \<and>
    (\<forall>v. d (type_Name (ctype (heap w ! a)) @ ''.'' @ Name f) = Some v \<longrightarrow>
       field_value w' a (Name f) = RString v) \<and>
    (d (type_Name (ctype (heap w ! a)) @ ''.'' @ Name f) = None \<longrightarrow>
       field_value w' a (Name f) = RString (Tag_Get (Tag f) defaultMessageTag))"
proof -
  have "si_instanceField (initializer_of (ctype (heap w ! a)) a f) = (a, Some f)"
    by (simp add: initializer_of_def)
  from LoadLocale_string_field [OF assms(1,2) this assms(3-5)] show ?thesis
    by (auto simp: localized_def)
qed

theorem string_field_after_LoadLocale_witness:
  "Init (Suc 0) 0 (world_of Greeter_t) = Some (Ok 0, greeter_world) \<and>
   inits_ok greeter_locales \<and>
   initializer_of Greeter_t 0 Title_f \<in> set (stringInitializers (mf greeter_locales)) \<and>
   (\<exists>w'. LoadLocale demo_ext ''fr'' greeter_locales = (Ok (), w') \<and>
      dictionary (mf w') ''Greeter.Title'' = Some ''Salutations'' \<and>
      field_value w' 0 ''Title'' = RString ''Salutations'') \<and>
   (\<exists>w'. LoadLocale demo_ext ''en'' greeter_locales = (Ok (), w') \<and>
      dictionary (mf w') ''Greeter.Title'' = None \<and>
      field_value w' 0 ''Title'' = RString ''Greetings'')"
proof -
  have T: "ctype (heap greeter_locales ! 0) = Greeter_t"
    by (simp add: greeter_locales_facts greeter_world_def)
  have i: "initializer_of (ctype (heap greeter_locales ! 0)) 0 Title_f
      \<in> set (stringInitializers (mf greeter_locales))"
    unfolding T by (simp add: greeter_locales_facts(4))
  have l: "GetLoader demo_ext (format \<lparr>format = ''yaml'', path = ''fr.yaml''\<rparr>) = Some demo_loader"
    "GetLoader demo_ext (format \<lparr>format = ''yaml'', path = ''en.yaml''\<rparr>) = Some demo_loader"
    by (simp_all add: demo_ext_def)
  have d: "demo_loader (path \<lparr>format = ''yaml'', path = ''fr.yaml''\<rparr>) =
      Inr [''Greeter.Hello'' \<mapsto> ''Bonjour, %v!'', ''Greeter.Title'' \<mapsto> ''Salutations'',
           ''Page.Footer'' \<mapsto> ''au revoir'']"
    "demo_loader (path \<lparr>format = ''yaml'', path = ''en.yaml''\<rparr>) = Inr Map.empty"
    by (simp_all add: demo_loader_def)
  note fr = string_field_after_LoadLocale [OF greeter_locales_facts(1) i greeter_locales_facts(5) l(1) d(1)]
  note en = string_field_after_LoadLocale [OF greeter_locales_facts(1) i greeter_locales_facts(6) l(2) d(2)]
  have n: "type_Name Greeter_t @ ''.'' @ Name Title_f = ''Greeter.Title''" "Name Title_f = ''Title''"
    "Tag_Get (Tag Title_f) defaultMessageTag = ''Greetings''"
    by (simp_all add: example_defs)
  have g: "type_Name Greeter_t = ''Greeter''"
    by (simp add: Greeter_t_def)
  show ?thesis
    using fr en Init_Greeter i
    by (auto simp: T n g greeter_locales_facts(1))
qed

text \<open>
  C3. \<open>LoadLocale\<close> with a tag that is not in the locale registry panics with the message
  of the unknown locale, which names the tag, and leaves the whole world as it was: the
  dictionary is the same, and no refresh closure has run (no field of the heap has changed).
\<close>

theorem LoadLocale_unknown_tag:
  "locales (mf w) t = None \<Longrightarrow> LoadLocale ext t w = (Panic (UnknownLocale t), w)"
  by (simp add: LoadLocale_def)

theorem LoadLocale_unknown_tag_witness:
  "locales (mf (SetLocale ''fr'' ''yaml'' ''fr.yaml'' (world_of Greeter_t))) ''de'' = None \<and>
   LoadLocale demo_ext ''de'' (SetLocale ''fr'' ''yaml'' ''fr.yaml'' (world_of Greeter_t)) =
     (Panic (UnknownLocale ''de''), SetLocale ''fr'' ''yaml'' ''fr.yaml'' (world_of Greeter_t))"
  using LoadLocale_unknown_tag
    [of "SetLocale ''fr'' ''yaml'' ''fr.yaml'' (world_of Greeter_t)" "''de''" demo_ext]
  by (simp add: SetLocale_def world_of_def New_def)

text \<open>
  C4, as it is stated, fails on a record whose function field with two results comes
  after a field that panics first, and on a record that embeds a function type with two
  results: \<open>Init\<close> fails there, with a message of package \<open>reflect\<close> that names no
  count.
\<close>

theorem wrong_results_other_panic:
  "Both_f \<in> set (type_Fields Tally_t) \<and> type_Kind (Type Both_f) = Func \<and>
   length (type_Out (Type Both_f)) = 2 \<and>
   Init (Suc 0) 0 (world_of Tally_t) =
     Some (Panic (ReflectPanic ''reflect: NumOut of non-func type''), world_of Tally_t) \<and>
   Handler_f \<in> set (type_Fields Hub_t) \<and> type_Kind (Type Handler_f) = Func \<and>
   length (type_Out (Type Handler_f)) = 2 \<and>
   Init (Suc 0) 0 (world_of Hub_t) =
     Some (Panic (ReflectPanic ''reflect: Elem of invalid type''), world_of Hub_t)"
  by (simp add: Tally_t_def Handler_t_def Handler_f_def Hub_t_def example_defs run_defs)

text \<open>
  C4, amended. A function field that is not embedded and whose type has a number of
  results \<open>n\<close> other than one makes \<open>initializeField\<close> panic with the wrong-results
  message for \<open>n\<close>, before it changes anything. \<open>Init\<close> on a record with such a field
  never returns normally, with any fuel; when the fields before it are initialized,
  \<open>Init\<close> panics with that message. A function field with one result never raises the
  wrong-results panic.
\<close>

theorem wrong_results_count:
  assumes "\<not> Anonymous field" and "type_Kind (Type field) = Func"
    and "n = length (type_Out (Type field))"
  shows "(n \<noteq> 1 \<longrightarrow> initializeField T field r w = (Panic (WrongResultsCount n), w)) \<and>
    (n \<noteq> 1 \<longrightarrow> field \<in> set (type_Fields (ctype (heap w ! p))) \<longrightarrow>
       (\<forall>fuel q w'. Init fuel p w \<noteq> Some (Ok q, w'))) \<and>
    (n \<noteq> 1 \<longrightarrow> p < length (heap w) \<longrightarrow> type_Kind (ctype (heap w ! p)) = Struct \<longrightarrow>
       type_Fields (ctype (heap w ! p)) = pre @ field # post \<longrightarrow>
       initializeFields fuel (ctype (heap w ! p)) p pre w = Some (Ok (), w1) \<longrightarrow>
       Init (Suc fuel) p w = Some (Panic (WrongResultsCount n), w1)) \<and>
    (n = 1 \<longrightarrow> (\<forall>k. fst (initializeField T field r w) \<noteq> Panic (WrongResultsCount k)))"
proof (intro conjI impI allI)
  assume "n \<noteq> 1"
  then show "initializeField T field r w = (Panic (WrongResultsCount n), w)"
    using assms by (simp add: initializeField_wrong_arity)
next
  fix fuel q w'
  assume "n \<noteq> 1" and "field \<in> set (type_Fields (ctype (heap w ! p)))"
  then show "Init fuel p w \<noteq> Some (Ok q, w')"
    using assms by (intro Init_never_Ok [of field]) (auto simp: initializeField_wrong_arity)
next
  assume "n \<noteq> 1" and "p < length (heap w)" and "type_Kind (ctype (heap w ! p)) = Struct"
    and "type_Fields (ctype (heap w ! p)) = pre @ field # post"
    and "initializeFields fuel (ctype (heap w ! p)) p pre w = Some (Ok (), w1)"
  then show "Init (Suc fuel) p w = Some (Panic (WrongResultsCount n), w1)"
    using assms by (intro Init_panics_at [of _ _ pre field post]) (auto simp: initializeField_wrong_arity)
next
  fix k
  assume "n = 1"
  then show "fst (initializeField T field r w) \<noteq> Panic (WrongResultsCount k)"
    using assms
    by (auto simp: initializeField_def NumOut_def Out_def messageHandler_def Value_Set_def Let_def
        split: option.splits if_splits)
qed

theorem wrong_results_count_witness:
  "\<not> Anonymous Both_f \<and> type_Kind (Type Both_f) = Func \<and> length (type_Out (Type Both_f)) = 2 \<and>
   initializeField Pair_t Both_f (0, Some Both_f) (world_of Pair_t) =
     (Panic (WrongResultsCount 2), world_of Pair_t) \<and>
   (\<forall>fuel q w'. Init fuel 0 (world_of Pair_t) \<noteq> Some (Ok q, w')) \<and>
   (\<exists>w1. initializeFields 0 Pair_t 0 [Title_f] (world_of Pair_t) = Some (Ok (), w1) \<and>
      Init (Suc 0) 0 (world_of Pair_t) = Some (Panic (WrongResultsCount 2), w1)) \<and>
   (\<forall>k. fst (initializeField Greeter_t Hello_f (0, Some Hello_f) (world_of Greeter_t))
      \<noteq> Panic (WrongResultsCount k))"
proof -
  have a: "\<not> Anonymous Both_f" "type_Kind (Type Both_f) = Func"
    and n: "2 = length (type_Out (Type Both_f))"
    by (simp_all add: example_defs)
  have b: "\<not> Anonymous Hello_f" "type_Kind (Type Hello_f) = Func"
    and m: "1 = length (type_Out (Type Hello_f))"
    by (simp_all add: example_defs)
  have h: "ctype (heap (world_of Pair_t) ! 0) = Pair_t" "0 < length (heap (world_of Pair_t))"
    by (simp_all add: world_of_def zero_cell_def)
  have k: "type_Kind Pair_t = Struct" "type_Fields Pair_t = [Title_f] @ Both_f # []"
    "Both_f \<in> set (type_Fields Pair_t)"
    by (simp_all add: Pair_t_def)
  obtain w1 where w1: "initializeFields 0 Pair_t 0 [Title_f] (world_of Pair_t) = Some (Ok (), w1)"
    by (simp add: example_defs run_defs)
  note t = wrong_results_count [OF a n, of Pair_t "(0, Some Both_f)" "world_of Pair_t" 0 "[Title_f]" "[]" 0 w1]
  note s = wrong_results_count [OF b m, of Greeter_t "(0, Some Hello_f)" "world_of Greeter_t"]
  show ?thesis
    using t s a n [symmetric] h k w1 by auto
qed

text \<open>
  C5, as it is stated, fails on a function field whose result type is an interface type
  with the method \<open>G11nResult\<close>: the closure asks the zero value of the result type
  for the method, the zero value of an interface type is nil and has none, so the
  method is not applied, and the formatted message, a \<open>string\<close>, is not assignable to
  the result: the call panics in \<open>Set\<close>.
\<close>

theorem interface_result_not_formatted:
  "Init (Suc 0) 0 (world_of Board_t) = Some (Ok 0, board_world) \<and>
   type_Out (Type Note_f) = [Formatter_t] \<and> G11nResult Formatter_t \<noteq> None \<and>
   fst (call_field demo_ext 0 ''Note'' [(string_t, RString ''Sam'')] board_world) =
     Panic (ReflectPanic ''reflect.Set: value of type string is not assignable to type'')"
proof -
  have "Init (Suc 0) 0 (world_of Board_t) = Some (Ok 0, board_world)"
    by (simp add: board_defs world_of_def New_def zero_cell_def FieldByName_def NumField_def
        NumOut_def Out_def Tag_Get_def defaultMessageTag_def string_t_def run_defs)
  moreover have "type_Out (Type Note_f) = [Formatter_t]" "G11nResult Formatter_t \<noteq> None"
    by (simp_all add: Note_f_def func_Formatter_t_def Formatter_t_def)
  moreover have
    "fst (call_field demo_ext 0 ''Note'' [(string_t, RString ''Sam'')] board_world) =
       Panic (ReflectPanic ''reflect.Set: value of type string is not assignable to type'')"
    by (simp add: board_defs call_field_def MakeFunc_args_def field_value_def FieldByName_def
        zero_cell_def handler_call_message_result message_result_def resultFormatter_of_def
        assignable_from_string_def)
  ultimately show ?thesis
    by simp
qed

text \<open>
  C5, amended. Let \<open>R\<close> be a type with the method \<open>G11nResult\<close> (\<open>m\<close>). A call of
  a message function with result type \<open>R\<close>, when \<open>R\<close> is not an interface type,
  applies \<open>m\<close>, on the zero value of \<open>R\<close>, to the formatted message and converts what
  it gives to \<open>R\<close>: for \<open>R\<close> of kind \<open>String\<close> the call returns that string as a
  value of type \<open>R\<close>, for \<open>R\<close> a slice of bytes or of runes it returns its bytes or
  its runes, and for any other \<open>R\<close> the conversion panics. When \<open>R\<close> is an interface
  type, \<open>m\<close> is not applied and the call panics. A string field of type \<open>R\<close> gets,
  from \<open>initializeField\<close>, \<open>m\<close> applied once to its default pattern (with the field's
  value as the receiver); after a later \<open>LoadLocale\<close> it holds the dictionary's entry
  or the default pattern as they are, \<open>m\<close> not applied.
\<close>

theorem result_formatter_applied:
  assumes "G11nResult R = Some m"
  shows "(type_Kind R \<noteq> Interface \<longrightarrow> h < length (closures w) \<longrightarrow>
       h_resultType (closures w ! h) = R \<longrightarrow>
       fst (handler_call ext h args w) =
         (case Convert_string
                 (m (zero_raw (type_Kind R))
                    (Sprintf ext (active_pattern w h) (map formatParam args))) R of
            Panic e \<Rightarrow> Panic e
          | Ok v \<Rightarrow> Ok [v])) \<and>
    (type_Kind R = String \<longrightarrow> h < length (closures w) \<longrightarrow>
       h_resultType (closures w ! h) = R \<longrightarrow>
       fst (handler_call ext h args w) =
         Ok [(R, RString (m (RString [])
                (Sprintf ext (active_pattern w h) (map formatParam args))))]) \<and>
    (string_to_slice R Uint8 \<longrightarrow> h < length (closures w) \<longrightarrow>
       h_resultType (closures w ! h) = R \<longrightarrow>
       fst (handler_call ext h args w) =
         Ok [(R, bytes_raw (m RNil
                (Sprintf ext (active_pattern w h) (map formatParam args))))]) \<and>
    (string_to_slice R Int32 \<longrightarrow> h < length (closures w) \<longrightarrow>
       h_resultType (closures w ! h) = R \<longrightarrow>
       fst (handler_call ext h args w) =
         Ok [(R, runes_raw (m RNil
                (Sprintf ext (active_pattern w h) (map formatParam args))))]) \<and>
    (type_Kind R \<noteq> Interface \<longrightarrow> type_Kind R \<noteq> String \<longrightarrow>
       \<not> string_to_slice R Uint8 \<longrightarrow> \<not> string_to_slice R Int32 \<longrightarrow>
       h < length (closures w) \<longrightarrow> h_resultType (closures w ! h) = R \<longrightarrow>
       fst (handler_call ext h args w) =
         Panic (ReflectPanic ''reflect.Value.Convert: value of type string cannot be converted to type'')) \<and>
    (type_Kind R = Interface \<longrightarrow> 0 < type_NumMethod R \<longrightarrow> h < length (closures w) \<longrightarrow>
       h_resultType (closures w ! h) = R \<longrightarrow>
       fst (handler_call ext h args w) =
         Panic (ReflectPanic ''reflect.Set: value of type string is not assignable to type'')) \<and>
    (type_Kind R = String \<longrightarrow> Type f = R \<longrightarrow>
       initializeField T f (p, Some f) w = (Ok (), w') \<longrightarrow>
       field_value w' p (Name f) =
         RString (m (field_value w p (Name f)) (Tag_Get (Tag f) defaultMessageTag))) \<and>
    (type_Kind R = String \<longrightarrow> Type f = R \<longrightarrow> inits_ok w \<longrightarrow>
       initializer_of (ctype (heap w ! a)) a f \<in> set (stringInitializers (mf w)) \<longrightarrow>
       locales (mf w) t = Some li \<longrightarrow> GetLoader ext (format li) = Some ld \<longrightarrow>
       ld (path li) = Inr d \<longrightarrow>
       (\<exists>w''. LoadLocale ext t w = (Ok (), w'') \<and>
          field_value w'' a (Name f) =
            RString (case d (type_Name (ctype (heap w ! a)) @ ''.'' @ Name f) of
                       Some v \<Rightarrow> v
                     | None \<Rightarrow> Tag_Get (Tag f) defaultMessageTag)))"
proof -
  let ?msg = "Sprintf ext (active_pattern w h) (map formatParam args)"
  have call: "fst (handler_call ext h args w) =
      (case Convert_string (m (zero_raw (type_Kind R)) ?msg) R of
         Panic e \<Rightarrow> Panic e
       | Ok v \<Rightarrow> Ok [v])"
    if "type_Kind R \<noteq> Interface" "h < length (closures w)" "h_resultType (closures w ! h) = R"
    using that assms by (simp add: handler_call_result resultFormatter_of_def Let_def)
  have c1: "type_Kind R \<noteq> Interface \<longrightarrow> h < length (closures w) \<longrightarrow>
       h_resultType (closures w ! h) = R \<longrightarrow>
       fst (handler_call ext h args w) =
         (case Convert_string (m (zero_raw (type_Kind R)) ?msg) R of
            Panic e \<Rightarrow> Panic e
          | Ok v \<Rightarrow> Ok [v])"
    using call by blast
  have c2: "type_Kind R = String \<longrightarrow> h < length (closures w) \<longrightarrow>
       h_resultType (closures w ! h) = R \<longrightarrow>
       fst (handler_call ext h args w) = Ok [(R, RString (m (RString []) ?msg))]"
  proof (intro impI)
    assume k: "type_Kind R = String" and h: "h < length (closures w)"
      "h_resultType (closures w ! h) = R"
    have "type_Kind R \<noteq> Interface"
      using k by simp
    from call [OF this h] show "fst (handler_call ext h args w) =
        Ok [(R, RString (m (RString []) ?msg))]"
      using k by (simp add: Convert_string_def string_to_slice_def)
  qed
  have c3: "string_to_slice R Uint8 \<longrightarrow> h < length (closures w) \<longrightarrow>
       h_resultType (closures w ! h) = R \<longrightarrow>
       fst (handler_call ext h args w) = Ok [(R, bytes_raw (m RNil ?msg))]"
  proof (intro impI)
    assume k: "string_to_slice R Uint8" and h: "h < length (closures w)"
      "h_resultType (closures w ! h) = R"
    have s: "type_Kind R = Slice"
      using k by (simp add: string_to_slice_def)
    then have "type_Kind R \<noteq> Interface"
      by simp
    from call [OF this h] show "fst (handler_call ext h args w) =
        Ok [(R, bytes_raw (m RNil ?msg))]"
      using k s by (simp add: Convert_string_def)
  qed
  have c4: "string_to_slice R Int32 \<longrightarrow> h < length (closures w) \<longrightarrow>
       h_resultType (closures w ! h) = R \<longrightarrow>
       fst (handler_call ext h args w) = Ok [(R, runes_raw (m RNil ?msg))]"
  proof (intro impI)
    assume k: "string_to_slice R Int32" and h: "h < length (closures w)"
      "h_resultType (closures w ! h) = R"
    have s: "type_Kind R = Slice"
      using k by (simp add: string_to_slice_def)
    then have i: "type_Kind R \<noteq> Interface"
      by simp
    have n: "\<not> string_to_slice R Uint8"
      using k by (auto simp: string_to_slice_def split: option.splits)
    from call [OF i h] show "fst (handler_call ext h args w) =
        Ok [(R, runes_raw (m RNil ?msg))]"
      using k s n by (simp add: Convert_string_def)
  qed
  have c5: "type_Kind R \<noteq> Interface \<longrightarrow> type_Kind R \<noteq> String \<longrightarrow>
       \<not> string_to_slice R Uint8 \<longrightarrow> \<not> string_to_slice R Int32 \<longrightarrow>
       h < length (closures w) \<longrightarrow> h_resultType (closures w ! h) = R \<longrightarrow>
       fst (handler_call ext h args w) =
         Panic (ReflectPanic ''reflect.Value.Convert: value of type string cannot be converted to type'')"
  proof (intro impI)
    assume k: "type_Kind R \<noteq> Interface" "type_Kind R \<noteq> String"
      "\<not> string_to_slice R Uint8" "\<not> string_to_slice R Int32"
      and h: "h < length (closures w)" "h_resultType (closures w ! h) = R"
    from call [OF k(1) h] show "fst (handler_call ext h args w) =
        Panic (ReflectPanic ''reflect.Value.Convert: value of type string cannot be converted to type'')"
      using k by (simp add: Convert_string_def)
  qed
  have c6: "type_Kind R = Interface \<longrightarrow> 0 < type_NumMethod R \<longrightarrow> h < length (closures w) \<longrightarrow>
       h_resultType (closures w ! h) = R \<longrightarrow>
       fst (handler_call ext h args w) =
         Panic (ReflectPanic ''reflect.Set: value of type string is not assignable to type'')"
    by (simp add: handler_call_result resultFormatter_of_def Let_def assignable_from_string_def)
  have c7: "type_Kind R = String \<longrightarrow> Type f = R \<longrightarrow>
       initializeField T f (p, Some f) w = (Ok (), w') \<longrightarrow>
       field_value w' p (Name f) =
         RString (m (field_value w p (Name f)) (Tag_Get (Tag f) defaultMessageTag))"
    using assms initializeField_string_value [of f T p w w'] by simp
  have c8: "type_Kind R = String \<longrightarrow> Type f = R \<longrightarrow> inits_ok w \<longrightarrow>
       initializer_of (ctype (heap w ! a)) a f \<in> set (stringInitializers (mf w)) \<longrightarrow>
       locales (mf w) t = Some li \<longrightarrow> GetLoader ext (format li) = Some ld \<longrightarrow>
       ld (path li) = Inr d \<longrightarrow>
       (\<exists>w''. LoadLocale ext t w = (Ok (), w'') \<and>
          field_value w'' a (Name f) =
            RString (case d (type_Name (ctype (heap w ! a)) @ ''.'' @ Name f) of
                       Some v \<Rightarrow> v
                     | None \<Rightarrow> Tag_Get (Tag f) defaultMessageTag))"
  proof (intro impI)
    assume "inits_ok w"
      "initializer_of (ctype (heap w ! a)) a f \<in> set (stringInitializers (mf w))"
      "locales (mf w) t = Some li" "GetLoader ext (format li) = Some ld" "ld (path li) = Inr d"
    from LoadLocale_string_field [OF this(1,2) _ this(3-5), of a f]
    show "\<exists>w''. LoadLocale ext t w = (Ok (), w'') \<and>
          field_value w'' a (Name f) =
            RString (case d (type_Name (ctype (heap w ! a)) @ ''.'' @ Name f) of
                       Some v \<Rightarrow> v
                     | None \<Rightarrow> Tag_Get (Tag f) defaultMessageTag)"
      by (auto simp: initializer_of_def localized_def)
  qed
  from c1 c2 c3 c4 c5 c6 c7 c8 show ?thesis
    by (intro conjI)
qed

theorem result_formatter_applied_witness:
  "G11nResult Shout_t \<noteq> None \<and> type_Kind Shout_t = String \<and>
   fst (handler_call demo_ext 0 [(string_t, RString ''Sam'')] page_world) =
     Ok [(Shout_t, RString ''Go Sam!'')] \<and>
   Init (Suc 0) 0 (world_of Wire_t) = Some (Ok 0, wire_world) \<and>
   fst (handler_call demo_ext 0 [(string_t, RString ''Sam'')] wire_world) =
     Ok [(Bytes_t, RSlice [RInt 71, RInt 111, RInt 32, RInt 83, RInt 97, RInt 109, RInt 33])] \<and>
   fst (handler_call demo_ext 1 [(string_t, RString ''Sam'')] wire_world) =
     Ok [(Runes_t, RSlice [RInt 83, RInt 32, RInt 83, RInt 97, RInt 109, RInt 33])] \<and>
   fst (handler_call demo_ext 2 [(string_t, RString ''Sam'')] wire_world) =
     Panic (ReflectPanic ''reflect.Value.Convert: value of type string cannot be converted to type'') \<and>
   fst (handler_call demo_ext 0 [(string_t, RString ''Sam'')] board_world) =
     Panic (ReflectPanic ''reflect.Set: value of type string is not assignable to type'') \<and>
   Init (Suc 0) 0 (world_of Page_t) = Some (Ok 0, page_world) \<and>
   field_value (snd (initializeField Page_t Footer_f (0, Some Footer_f) (world_of Page_t)))
     0 ''Footer'' = RString ''bye!'' \<and>
   (\<exists>w''. LoadLocale demo_ext ''en'' page_locales = (Ok (), w'') \<and>
      field_value w'' 0 ''Footer'' = RString ''bye'') \<and>
   (\<exists>w''. LoadLocale demo_ext ''fr'' page_locales = (Ok (), w'') \<and>
      field_value w'' 0 ''Footer'' = RString ''au revoir'')"
proof -
  obtain m where m: "G11nResult Shout_t = Some m" and mv: "\<And>r s. m r s = s @ ''!''"
    by (simp add: Shout_t_def)
  have k: "type_Kind Shout_t = String" by (simp add: Shout_t_def)
  have c: "0 < length (closures page_world)" "h_resultType (closures page_world ! 0) = Shout_t"
    "active_pattern page_world 0 = ''Go %v''" "Sprintf demo_ext = sprintf_v"
    by (simp_all add: page_world_def active_pattern_def New_def demo_ext_def)
  have p: "formatParam (string_t, RString ''Sam'') = (string_t, RString ''Sam'')"
    by (simp add: formatParam_def string_t_def)
  obtain w1 where f: "initializeField Page_t Footer_f (0, Some Footer_f) (world_of Page_t) = (Ok (), w1)"
    by (simp add: page_defs example_defs run_defs)
  have ft: "Type Footer_f = Shout_t" "Name Footer_f = ''Footer''"
    "Tag_Get (Tag Footer_f) defaultMessageTag = ''bye''"
    "field_value (world_of Page_t) 0 ''Footer'' = RString []"
    "type_Name Page_t = ''Page''"
    by (simp_all add: page_defs example_defs field_value_def)
  have T: "ctype (heap page_locales ! 0) = Page_t"
    by (simp add: page_locales_facts page_world_def)
  have i: "initializer_of (ctype (heap page_locales ! 0)) 0 Footer_f
      \<in> set (stringInitializers (mf page_locales))"
    unfolding T by (simp add: page_locales_facts(4))
  have l: "GetLoader demo_ext (format \<lparr>format = ''yaml'', path = ''fr.yaml''\<rparr>) = Some demo_loader"
    "GetLoader demo_ext (format \<lparr>format = ''yaml'', path = ''en.yaml''\<rparr>) = Some demo_loader"
    by (simp_all add: demo_ext_def)
  have d: "demo_loader (path \<lparr>format = ''yaml'', path = ''fr.yaml''\<rparr>) =
      Inr [''Greeter.Hello'' \<mapsto> ''Bonjour, %v!'', ''Greeter.Title'' \<mapsto> ''Salutations'',
           ''Page.Footer'' \<mapsto> ''au revoir'']"
    "demo_loader (path \<lparr>format = ''yaml'', path = ''en.yaml''\<rparr>) = Inr Map.empty"
    by (simp_all add: demo_loader_def)
  note t = result_formatter_applied [OF m]
  note call = t [THEN conjunct2, THEN conjunct1, rule_format, OF k c(1,2),
      of demo_ext "[(string_t, RString ''Sam'')]"]
  note init = t [THEN conjunct2, THEN conjunct2, THEN conjunct2, THEN conjunct2, THEN conjunct2,
      THEN conjunct2, THEN conjunct1, rule_format, OF k ft(1) f]
  note en = t [THEN conjunct2, THEN conjunct2, THEN conjunct2, THEN conjunct2, THEN conjunct2,
      THEN conjunct2, THEN conjunct2, rule_format,
      OF k ft(1) page_locales_facts(1) i page_locales_facts(6) l(2) d(2)]
  note fr = t [THEN conjunct2, THEN conjunct2, THEN conjunct2, THEN conjunct2, THEN conjunct2,
      THEN conjunct2, THEN conjunct2, rule_format,
      OF k ft(1) page_locales_facts(1) i page_locales_facts(5) l(1) d(1)]
  have first: "fst (handler_call demo_ext 0 [(string_t, RString ''Sam'')] page_world) =
     Ok [(Shout_t, RString ''Go Sam!'')]"
    using call by (simp add: c p mv)
  have wire: "Init (Suc 0) 0 (world_of Wire_t) = Some (Ok 0, wire_world)"
    by (simp add: wire_defs world_of_def New_def zero_cell_def FieldByName_def NumField_def
        NumOut_def Out_def Tag_Get_def defaultMessageTag_def string_t_def run_defs
        numeral_2_eq_2)
  obtain mb where mb: "G11nResult Bytes_t = Some mb" and mbv: "\<And>r s. mb r s = s @ ''!''"
    by (simp add: Bytes_t_def)
  obtain mr where mr: "G11nResult Runes_t = Some mr" and mrv: "\<And>r s. mr r s = s @ ''!''"
    by (simp add: Runes_t_def)
  obtain ms where ms: "G11nResult Stamp_t = Some ms"
    by (simp add: Stamp_t_def)
  obtain mi where mi: "G11nResult Formatter_t = Some mi"
    by (simp add: Formatter_t_def)
  have kb: "string_to_slice Bytes_t Uint8"
    and kr: "string_to_slice Runes_t Int32"
    and ks: "type_Kind Stamp_t \<noteq> Interface" "type_Kind Stamp_t \<noteq> String"
      "\<not> string_to_slice Stamp_t Uint8" "\<not> string_to_slice Stamp_t Int32"
    and ki: "type_Kind Formatter_t = Interface" "0 < type_NumMethod Formatter_t"
    by (simp_all add: string_to_slice_def Bytes_t_def Runes_t_def Stamp_t_def Formatter_t_def
        uint8_t_def int32_t_def)
  have cw: "0 < length (closures wire_world)" "h_resultType (closures wire_world ! 0) = Bytes_t"
    "Suc 0 < length (closures wire_world)"
    "h_resultType (closures wire_world ! Suc 0) = Runes_t"
    "2 < length (closures wire_world)" "h_resultType (closures wire_world ! 2) = Stamp_t"
    "active_pattern wire_world 0 = ''Go %v''" "active_pattern wire_world (Suc 0) = ''S %v''"
    by (simp_all add: wire_world_def active_pattern_def New_def)
  have cb: "0 < length (closures board_world)"
    "h_resultType (closures board_world ! 0) = Formatter_t"
    by (simp_all add: board_world_def)
  note bytes = result_formatter_applied [OF mb, THEN conjunct2, THEN conjunct2, THEN conjunct1,
      rule_format, OF kb cw(1,2), of demo_ext "[(string_t, RString ''Sam'')]"]
  note runes = result_formatter_applied [OF mr, THEN conjunct2, THEN conjunct2, THEN conjunct2,
      THEN conjunct1, rule_format, OF kr cw(3,4), of demo_ext "[(string_t, RString ''Sam'')]"]
  note stamp = result_formatter_applied [OF ms, THEN conjunct2, THEN conjunct2, THEN conjunct2,
      THEN conjunct2, THEN conjunct1, rule_format, OF ks cw(5,6),
      of demo_ext "[(string_t, RString ''Sam'')]"]
  note iface = result_formatter_applied [OF mi, THEN conjunct2, THEN conjunct2, THEN conjunct2,
      THEN conjunct2, THEN conjunct2, THEN conjunct1, rule_format, OF ki cb,
      of demo_ext "[(string_t, RString ''Sam'')]"]
  have second: "fst (handler_call demo_ext 0 [(string_t, RString ''Sam'')] wire_world) =
     Ok [(Bytes_t, RSlice [RInt 71, RInt 111, RInt 32, RInt 83, RInt 97, RInt 109, RInt 33])]"
    using bytes by (simp add: cw c(4) p mbv bytes_raw_def)
  have third: "fst (handler_call demo_ext 1 [(string_t, RString ''Sam'')] wire_world) =
     Ok [(Runes_t, RSlice [RInt 83, RInt 32, RInt 83, RInt 97, RInt 109, RInt 33])]"
    using runes
    by (simp add: cw c(4) p mrv runes_raw_def sequence_size_def)
  have fourth: "fst (handler_call demo_ext 2 [(string_t, RString ''Sam'')] wire_world) =
     Panic (ReflectPanic ''reflect.Value.Convert: value of type string cannot be converted to type'')"
    using stamp by simp
  have fifth: "fst (handler_call demo_ext 0 [(string_t, RString ''Sam'')] board_world) =
     Panic (ReflectPanic ''reflect.Set: value of type string is not assignable to type'')"
    using iface by simp
  show ?thesis
    using first second third fourth fifth wire init en fr m k f Init_Page
    by (simp add: ft T mv)
qed

text \<open>
  C6. \<open>Init\<close> of a \<open>Greeter\<close> appends a refresh closure for the string field
  \<open>Title\<close> and none for the function field \<open>Hello\<close>, and \<open>LoadLocale\<close> leaves the
  function in \<open>Hello\<close> as it is. But the output of that function does not reflect the
  dictionary of the call alone. Under the locale \<open>en\<close>, whose dictionary has no entry
  for \<open>Hello\<close>, a call gives the default \<open>Hello, Sam!\<close>; after a call under the
  locale \<open>fr\<close>, the same call under \<open>en\<close> again, with the same heap and the same
  factory as the first time, gives \<open>Bonjour, Sam!\<close>: the closure has kept the pattern
  it resolved last, and it is not stable.
\<close>

theorem callable_output_depends_on_history:
  "\<exists>w0 w1 w2 w3 w4 w5 w6.
     Init (Suc 0) 0 (SetLocale ''fr'' ''yaml'' ''fr.yaml''
       (SetLocale ''en'' ''yaml'' ''en.yaml'' (world_of Greeter_t))) = Some (Ok 0, w0) \<and>
     map si_messageKey (stringInitializers (mf w0)) = [''Greeter.Title''] \<and>
     field_value w0 0 ''Hello'' = RFunc 0 \<and>
     LoadLocale demo_ext ''en'' w0 = (Ok (), w1) \<and>
     field_value w1 0 ''Hello'' = RFunc 0 \<and>
     dictionary (mf w1) ''Greeter.Hello'' = None \<and>
     call_field demo_ext 0 ''Hello'' [(string_t, RString ''Sam'')] w1 =
       (Ok [(string_t, RString ''Hello, Sam!'')], w2) \<and>
     LoadLocale demo_ext ''fr'' w2 = (Ok (), w3) \<and>
     field_value w3 0 ''Hello'' = RFunc 0 \<and>
     call_field demo_ext 0 ''Hello'' [(string_t, RString ''Sam'')] w3 =
       (Ok [(string_t, RString ''Bonjour, Sam!'')], w4) \<and>
     LoadLocale demo_ext ''en'' w4 = (Ok (), w5) \<and>
     heap w5 = heap w1 \<and> mf w5 = mf w1 \<and> closures w5 \<noteq> closures w1 \<and>
     call_field demo_ext 0 ''Hello'' [(string_t, RString ''Sam'')] w5 =
       (Ok [(string_t, RString ''Bonjour, Sam!'')], w6)"
  by (simp add: example_defs run_defs call_field_def MakeFunc_args_def handler_call_def
      formatParam_def assignable_from_string_def)




text \<open>
  C8, as it is stated, fails on a string field whose result formatter reads its receiver:
  the second \<open>Init\<close> passes the value the first one left as the receiver.
\<close>

theorem second_Init_changes_value:
  "Init (Suc 0) 0 (world_of Ledger_t) = Some (Ok 0, ledger_once) \<and>
   Init (Suc 0) 0 ledger_once = Some (Ok 0, ledger_twice) \<and>
   field_value ledger_once 0 ''Total'' = RString ''T'' \<and>
   field_value ledger_twice 0 ''Total'' = RString ''TT''"
  by (simp add: ledger_once_def ledger_twice_def Total_f_def Ledger_t_def example_defs run_defs)

text \<open>
  C8, amended. Let \<open>Init\<close> return normally twice in succession on one record. A string
  field of the record whose type has no result formatter, or one that does not read its
  receiver, holds after the second \<open>Init\<close> the value it held after the first. The
  locales and the dictionary of the factory are the same; the refresh closures are those
  there were, followed by new ones, and among the new ones is the closure of the field,
  as it was among those the first \<open>Init\<close> appended. On a record without embedded
  fields the second \<open>Init\<close> appends exactly the closures the first one appended. And
  \<open>Init\<close> does return normally twice on every record of a type it is made for.
\<close>

theorem second_Init_string_fields:
  assumes "go_struct (ctype (heap w ! p))"
    and "f \<in> set (type_Fields (ctype (heap w ! p)))" and "\<not> Anonymous f"
    and "type_Kind (Type f) = String"
  shows "(Init n p w = Some (Ok p, w1) \<longrightarrow> Init n' p w1 = Some (Ok p, w2) \<longrightarrow>
      ((\<forall>m. G11nResult (Type f) = Some m \<longrightarrow> (\<forall>r r' s. m r s = m r' s)) \<longrightarrow>
         field_value w2 p (Name f) = field_value w1 p (Name f)) \<and>
      locales (mf w2) = locales (mf w1) \<and> dictionary (mf w2) = dictionary (mf w1) \<and>
      initializer_of (ctype (heap w ! p)) p f
        \<in> set (drop (length (stringInitializers (mf w))) (stringInitializers (mf w1))) \<and>
      prefix (stringInitializers (mf w1)) (stringInitializers (mf w2)) \<and>
      initializer_of (ctype (heap w ! p)) p f
        \<in> set (drop (length (stringInitializers (mf w1))) (stringInitializers (mf w2))) \<and>
      ((\<forall>g \<in> set (type_Fields (ctype (heap w ! p))). \<not> Anonymous g) \<longrightarrow>
         (\<exists>new. stringInitializers (mf w1) = stringInitializers (mf w) @ new \<and>
            stringInitializers (mf w2) = stringInitializers (mf w1) @ new))) \<and>
    (p < length (heap w) \<longrightarrow> initializable n (ctype (heap w ! p)) \<longrightarrow>
      (\<exists>v1 v2. Init n p w = Some (Ok p, v1) \<and> Init n p v1 = Some (Ok p, v2)))"
proof (intro conjI impI)
  let ?T = "ctype (heap w ! p)"
  let ?P = "Tag_Get (Tag f) defaultMessageTag"
  {
    assume first: "Init n p w = Some (Ok p, w1)" and second: "Init n' p w1 = Some (Ok p, w2)"
    from Init_Ok_fields [OF first] obtain k where
      p: "p < length (heap w)" and
      run1: "initializeFields k ?T p (type_Fields ?T) w = Some (Ok (), w1)"
      by blast
    have fr1: "frame p UNIV w w1" using first by (rule Init_frame)
    have T1: "ctype (heap w1 ! p) = ?T" using frame_ctype [OF fr1 p] .
    from Init_Ok_fields [OF second] T1 obtain k' where
      p1: "p < length (heap w1)" and
      run2: "initializeFields k' ?T p (type_Fields ?T) w1 = Some (Ok (), w2)"
      by auto
    have fr2: "frame p UNIV w1 w2" using second by (rule Init_frame)
    note a1 = initializeFields_string_field [OF run1 p refl assms(1) subset_refl assms(2-4)]
    note a2 = initializeFields_string_field [OF run2 p1 T1 assms(1) subset_refl assms(2-4)]
    show "locales (mf w2) = locales (mf w1)" "dictionary (mf w2) = dictionary (mf w1)"
      "prefix (stringInitializers (mf w1)) (stringInitializers (mf w2))"
      using fr2 by (simp_all add: frame_def)
    show "initializer_of ?T p f
        \<in> set (drop (length (stringInitializers (mf w))) (stringInitializers (mf w1)))"
      using a1 by simp
    show "initializer_of ?T p f
        \<in> set (drop (length (stringInitializers (mf w1))) (stringInitializers (mf w2)))"
      using a2 by simp
    {
      assume indep: "\<forall>m. G11nResult (Type f) = Some m \<longrightarrow> (\<forall>r r' s. m r s = m r' s)"
      have eq: "hooked (Type f) r ?P = hooked (Type f) r' ?P" for r r'
        using indep by (auto simp: hooked_String [OF assms(4)] split: option.splits)
      from a1 obtain r1 where "field_value w1 p (Name f) = RString (hooked (Type f) r1 ?P)"
        by (auto simp: string_wired_def)
      moreover from a2 obtain r2 where "field_value w2 p (Name f) = RString (hooked (Type f) r2 ?P)"
        by (auto simp: string_wired_def)
      ultimately show "field_value w2 p (Name f) = field_value w1 p (Name f)"
        using eq [of r1 r2] by simp
    }
    {
      assume plain: "\<forall>g \<in> set (type_Fields ?T). \<not> Anonymous g"
      from initializeFields_inits_exact [OF assms(1) run1 subset_refl plain]
        initializeFields_inits_exact [OF assms(1) run2 subset_refl plain]
      show "\<exists>new. stringInitializers (mf w1) = stringInitializers (mf w) @ new \<and>
            stringInitializers (mf w2) = stringInitializers (mf w1) @ new"
        by blast
    }
  }
  {
    assume p: "p < length (heap w)" and T: "initializable n ?T"
    from Init_total [OF T p refl] obtain v1 where first: "Init n p w = Some (Ok p, v1)" by blast
    have fr1: "frame p UNIV w v1" using first by (rule Init_frame)
    have "ctype (heap v1 ! p) = ?T" "p < length (heap v1)"
      using frame_ctype [OF fr1 p] frame_length [OF fr1 p] by simp_all
    from Init_total [OF T this(2,1)] first
    show "\<exists>v1 v2. Init n p w = Some (Ok p, v1) \<and> Init n p v1 = Some (Ok p, v2)"
      by blast
  }
qed

theorem second_Init_string_fields_witness:
  "go_struct (ctype (heap (world_of Page_t) ! 0)) \<and>
   Footer_f \<in> set (type_Fields (ctype (heap (world_of Page_t) ! 0))) \<and>
   \<not> Anonymous Footer_f \<and> type_Kind (Type Footer_f) = String \<and>
   initializable (Suc 0) (ctype (heap (world_of Page_t) ! 0)) \<and>
   Init (Suc 0) 0 (world_of Page_t) = Some (Ok 0, page_world) \<and>
   (\<exists>w2. Init (Suc 0) 0 page_world = Some (Ok 0, w2) \<and>
      field_value page_world 0 ''Footer'' = RString ''bye!'' \<and>
      field_value w2 0 ''Footer'' = RString ''bye!'' \<and>
      locales (mf w2) = locales (mf page_world) \<and>
      dictionary (mf w2) = dictionary (mf page_world) \<and>
      stringInitializers (mf page_world) = [initializer_of Page_t 0 Footer_f] \<and>
      stringInitializers (mf w2) = [initializer_of Page_t 0 Footer_f, initializer_of Page_t 0 Footer_f])"
proof -
  have T: "ctype (heap (world_of Page_t) ! 0) = Page_t" "0 < length (heap (world_of Page_t))"
    "stringInitializers (mf (world_of Page_t)) = []"
    by (simp_all add: world_of_def zero_cell_def New_def)
  have i: "initializable (Suc 0) (ctype (heap (world_of Page_t) ! 0))"
    unfolding T by (rule initializable_Page)
  have g: "go_struct (ctype (heap (world_of Page_t) ! 0))"
    using i by (rule initializable_go_struct)
  have f: "Footer_f \<in> set (type_Fields (ctype (heap (world_of Page_t) ! 0)))"
    "\<not> Anonymous Footer_f" "type_Kind (Type Footer_f) = String"
    unfolding T by (simp_all add: page_defs example_defs)
  have plain: "\<forall>g \<in> set (type_Fields (ctype (heap (world_of Page_t) ! 0))). \<not> Anonymous g"
    unfolding T by (simp add: page_defs)
  have indep: "\<forall>m. G11nResult (Type Footer_f) = Some m \<longrightarrow> (\<forall>r r' s. m r s = m r' s)"
    by (simp add: page_defs example_defs)
  note t = second_Init_string_fields [OF g f]
  from t [THEN conjunct2, rule_format, OF T(2) i] obtain v1 v2 where
    r: "Init (Suc 0) 0 (world_of Page_t) = Some (Ok 0, v1)" "Init (Suc 0) 0 v1 = Some (Ok 0, v2)"
    by blast
  from r(1) Init_Page have v1: "v1 = page_world" by simp
  note s = t [THEN conjunct1, rule_format, OF r(1) r(2), unfolded v1 T]
  have v: "field_value page_world 0 ''Footer'' = RString ''bye!''"
    "stringInitializers (mf page_world) = [initializer_of Page_t 0 Footer_f]"
    "Name Footer_f = ''Footer''"
    by (simp_all add: page_world_def field_value_def initializer_of_def page_defs example_defs)
  from s plain [unfolded T] obtain new where
    n: "stringInitializers (mf page_world) = [] @ new"
      "stringInitializers (mf v2) = stringInitializers (mf page_world) @ new"
    by auto
  then have "stringInitializers (mf v2) =
      [initializer_of Page_t 0 Footer_f, initializer_of Page_t 0 Footer_f]"
    using v(2) by simp
  moreover have "field_value v2 0 ''Footer'' = RString ''bye!''"
    using s indep v by simp
  ultimately show ?thesis
    using r(2) [unfolded v1] s g f i v Init_Page by auto
qed






end
